theory Spec2Isabelle
  imports Complex_Main "HOL-Library.Sublist"
begin

section \<open>Text: Python strings as lists of code points\<close>

text \<open>
  A Python \<^verbatim>\<open>str\<close> is a sequence of Unicode code points (integers); \<^verbatim>\<open>len\<close>, slicing and
  \<^verbatim>\<open>endswith\<close> count code points. The Chinese literals of the sources are written as
  their code points, with the literal named in a comment.

  The character tables are those of CPython 3.11 (Unicode 14.0.0), each over all code
  points: whitespace (\<^verbatim>\<open>str.strip()\<close>, \<^verbatim>\<open>str.split()\<close>, \<^verbatim>\<open>\s\<close>), the decimal digits
  (\<^verbatim>\<open>\d\<close>), the word characters (\<^verbatim>\<open>\w\<close>, which decide \<^verbatim>\<open>\b\<close>), and the full case
  mappings of \<^verbatim>\<open>str.upper()\<close> and \<^verbatim>\<open>str.lower()\<close>, where one code point may become
  several and a capital sigma becomes a final sigma after a cased letter that no
  cased letter follows. A table is a sorted list of ranges, cut into pieces of 32.
\<close>

type_synonym cp = int

type_synonym ustr = "cp list"

definition asc :: "string \<Rightarrow> ustr" where
  "asc s = map of_char s"

definition is_space :: "cp \<Rightarrow> bool" where
  "is_space c \<longleftrightarrow>
     (9 \<le> c \<and> c \<le> 13) \<or> (28 \<le> c \<and> c \<le> 32) \<or> c = 133 \<or> c = 160 \<or> c = 5760 \<or>
     (8192 \<le> c \<and> c \<le> 8202) \<or> c = 8232 \<or> c = 8233 \<or> c = 8239 \<or> c = 8287 \<or> c = 12288"

definition is_upper_az :: "cp \<Rightarrow> bool" where
  "is_upper_az c \<longleftrightarrow> 65 \<le> c \<and> c \<le> 90"

definition is_lower_az :: "cp \<Rightarrow> bool" where
  "is_lower_az c \<longleftrightarrow> 97 \<le> c \<and> c \<le> 122"

fun in_ranges :: "(cp \<times> cp) list \<Rightarrow> cp \<Rightarrow> bool" where
  \<comment> \<open>membership in a sorted list of ranges, bounds included\<close>
  "in_ranges [] c = False"
| "in_ranges ((lo, hi) # rs) c = (if c < lo then False else if c \<le> hi then True else in_ranges rs c)"

datatype cmap = Add int | Alt int | To ustr

fun map_ranges :: "(cp \<times> cp \<times> cmap) list \<Rightarrow> cp \<Rightarrow> ustr" where
  \<comment> \<open>the image of a code point under a sorted list of mapped ranges: shifted by a
      constant (\<open>Add\<close>), shifted at every second code point from the lower bound on
      (\<open>Alt\<close>), or a fixed string (\<open>To\<close>); itself outside the ranges\<close>
  "map_ranges [] c = [c]"
| "map_ranges ((lo, hi, m) # rs) c =
     (if c < lo then [c]
      else if c \<le> hi
      then (case m of
              Add d \<Rightarrow> [c + d]
            | Alt d \<Rightarrow> (if even (c - lo) then [c + d] else [c])
            | To s \<Rightarrow> s)
      else map_ranges rs c)"

definition digit_ranges_1 :: "(cp \<times> cp) list" where
  "digit_ranges_1 =
     [(48, 57), (1632, 1641), (1776, 1785), (1984, 1993), (2406, 2415), (2534, 2543),
      (2662, 2671), (2790, 2799), (2918, 2927), (3046, 3055), (3174, 3183), (3302, 3311),
      (3430, 3439), (3558, 3567), (3664, 3673), (3792, 3801), (3872, 3881), (4160, 4169),
      (4240, 4249), (6112, 6121), (6160, 6169), (6470, 6479), (6608, 6617), (6784, 6793),
      (6800, 6809), (6992, 7001), (7088, 7097), (7232, 7241), (7248, 7257), (42528, 42537),
      (43216, 43225), (43264, 43273)]"

definition digit_ranges_2 :: "(cp \<times> cp) list" where
  "digit_ranges_2 =
     [(43472, 43481), (43504, 43513), (43600, 43609), (44016, 44025), (65296, 65305),
      (66720, 66729), (68912, 68921), (69734, 69743), (69872, 69881), (69942, 69951),
      (70096, 70105), (70384, 70393), (70736, 70745), (70864, 70873), (71248, 71257),
      (71360, 71369), (71472, 71481), (71904, 71913), (72016, 72025), (72784, 72793),
      (73040, 73049), (73120, 73129), (92768, 92777), (92864, 92873), (93008, 93017),
      (120782, 120831), (123200, 123209), (123632, 123641), (125264, 125273), (130032, 130041)]"

definition is_digit :: "cp \<Rightarrow> bool" where
  \<comment> \<open>\<^verbatim>\<open>\d\<close>: the decimal digits (category Nd)\<close>
  "is_digit c =
     (if c < 43472
      then in_ranges digit_ranges_1 c
      else in_ranges digit_ranges_2 c)"

definition word_ranges_1 :: "(cp \<times> cp) list" where
  "word_ranges_1 =
     [(48, 57), (65, 90), (95, 95), (97, 122), (170, 170), (178, 179), (181, 181), (185, 186),
      (188, 190), (192, 214), (216, 246), (248, 705), (710, 721), (736, 740), (748, 748),
      (750, 750), (880, 884), (886, 887), (890, 893), (895, 895), (902, 902), (904, 906),
      (908, 908), (910, 929), (931, 1013), (1015, 1153), (1162, 1327), (1329, 1366),
      (1369, 1369), (1376, 1416), (1488, 1514), (1519, 1522)]"

definition word_ranges_2 :: "(cp \<times> cp) list" where
  "word_ranges_2 =
     [(1568, 1610), (1632, 1641), (1646, 1647), (1649, 1747), (1749, 1749), (1765, 1766),
      (1774, 1788), (1791, 1791), (1808, 1808), (1810, 1839), (1869, 1957), (1969, 1969),
      (1984, 2026), (2036, 2037), (2042, 2042), (2048, 2069), (2074, 2074), (2084, 2084),
      (2088, 2088), (2112, 2136), (2144, 2154), (2160, 2183), (2185, 2190), (2208, 2249),
      (2308, 2361), (2365, 2365), (2384, 2384), (2392, 2401), (2406, 2415), (2417, 2432),
      (2437, 2444), (2447, 2448)]"

definition word_ranges_3 :: "(cp \<times> cp) list" where
  "word_ranges_3 =
     [(2451, 2472), (2474, 2480), (2482, 2482), (2486, 2489), (2493, 2493), (2510, 2510),
      (2524, 2525), (2527, 2529), (2534, 2545), (2548, 2553), (2556, 2556), (2565, 2570),
      (2575, 2576), (2579, 2600), (2602, 2608), (2610, 2611), (2613, 2614), (2616, 2617),
      (2649, 2652), (2654, 2654), (2662, 2671), (2674, 2676), (2693, 2701), (2703, 2705),
      (2707, 2728), (2730, 2736), (2738, 2739), (2741, 2745), (2749, 2749), (2768, 2768),
      (2784, 2785), (2790, 2799)]"

definition word_ranges_4 :: "(cp \<times> cp) list" where
  "word_ranges_4 =
     [(2809, 2809), (2821, 2828), (2831, 2832), (2835, 2856), (2858, 2864), (2866, 2867),
      (2869, 2873), (2877, 2877), (2908, 2909), (2911, 2913), (2918, 2927), (2929, 2935),
      (2947, 2947), (2949, 2954), (2958, 2960), (2962, 2965), (2969, 2970), (2972, 2972),
      (2974, 2975), (2979, 2980), (2984, 2986), (2990, 3001), (3024, 3024), (3046, 3058),
      (3077, 3084), (3086, 3088), (3090, 3112), (3114, 3129), (3133, 3133), (3160, 3162),
      (3165, 3165), (3168, 3169)]"

definition word_ranges_5 :: "(cp \<times> cp) list" where
  "word_ranges_5 =
     [(3174, 3183), (3192, 3198), (3200, 3200), (3205, 3212), (3214, 3216), (3218, 3240),
      (3242, 3251), (3253, 3257), (3261, 3261), (3293, 3294), (3296, 3297), (3302, 3311),
      (3313, 3314), (3332, 3340), (3342, 3344), (3346, 3386), (3389, 3389), (3406, 3406),
      (3412, 3414), (3416, 3425), (3430, 3448), (3450, 3455), (3461, 3478), (3482, 3505),
      (3507, 3515), (3517, 3517), (3520, 3526), (3558, 3567), (3585, 3632), (3634, 3635),
      (3648, 3654), (3664, 3673)]"

definition word_ranges_6 :: "(cp \<times> cp) list" where
  "word_ranges_6 =
     [(3713, 3714), (3716, 3716), (3718, 3722), (3724, 3747), (3749, 3749), (3751, 3760),
      (3762, 3763), (3773, 3773), (3776, 3780), (3782, 3782), (3792, 3801), (3804, 3807),
      (3840, 3840), (3872, 3891), (3904, 3911), (3913, 3948), (3976, 3980), (4096, 4138),
      (4159, 4169), (4176, 4181), (4186, 4189), (4193, 4193), (4197, 4198), (4206, 4208),
      (4213, 4225), (4238, 4238), (4240, 4249), (4256, 4293), (4295, 4295), (4301, 4301),
      (4304, 4346), (4348, 4680)]"

definition word_ranges_7 :: "(cp \<times> cp) list" where
  "word_ranges_7 =
     [(4682, 4685), (4688, 4694), (4696, 4696), (4698, 4701), (4704, 4744), (4746, 4749),
      (4752, 4784), (4786, 4789), (4792, 4798), (4800, 4800), (4802, 4805), (4808, 4822),
      (4824, 4880), (4882, 4885), (4888, 4954), (4969, 4988), (4992, 5007), (5024, 5109),
      (5112, 5117), (5121, 5740), (5743, 5759), (5761, 5786), (5792, 5866), (5870, 5880),
      (5888, 5905), (5919, 5937), (5952, 5969), (5984, 5996), (5998, 6000), (6016, 6067),
      (6103, 6103), (6108, 6108)]"

definition word_ranges_8 :: "(cp \<times> cp) list" where
  "word_ranges_8 =
     [(6112, 6121), (6128, 6137), (6160, 6169), (6176, 6264), (6272, 6276), (6279, 6312),
      (6314, 6314), (6320, 6389), (6400, 6430), (6470, 6509), (6512, 6516), (6528, 6571),
      (6576, 6601), (6608, 6618), (6656, 6678), (6688, 6740), (6784, 6793), (6800, 6809),
      (6823, 6823), (6917, 6963), (6981, 6988), (6992, 7001), (7043, 7072), (7086, 7141),
      (7168, 7203), (7232, 7241), (7245, 7293), (7296, 7304), (7312, 7354), (7357, 7359),
      (7401, 7404), (7406, 7411)]"

definition word_ranges_9 :: "(cp \<times> cp) list" where
  "word_ranges_9 =
     [(7413, 7414), (7418, 7418), (7424, 7615), (7680, 7957), (7960, 7965), (7968, 8005),
      (8008, 8013), (8016, 8023), (8025, 8025), (8027, 8027), (8029, 8029), (8031, 8061),
      (8064, 8116), (8118, 8124), (8126, 8126), (8130, 8132), (8134, 8140), (8144, 8147),
      (8150, 8155), (8160, 8172), (8178, 8180), (8182, 8188), (8304, 8305), (8308, 8313),
      (8319, 8329), (8336, 8348), (8450, 8450), (8455, 8455), (8458, 8467), (8469, 8469),
      (8473, 8477), (8484, 8484)]"

definition word_ranges_10 :: "(cp \<times> cp) list" where
  "word_ranges_10 =
     [(8486, 8486), (8488, 8488), (8490, 8493), (8495, 8505), (8508, 8511), (8517, 8521),
      (8526, 8526), (8528, 8585), (9312, 9371), (9450, 9471), (10102, 10131), (11264, 11492),
      (11499, 11502), (11506, 11507), (11517, 11517), (11520, 11557), (11559, 11559),
      (11565, 11565), (11568, 11623), (11631, 11631), (11648, 11670), (11680, 11686),
      (11688, 11694), (11696, 11702), (11704, 11710), (11712, 11718), (11720, 11726),
      (11728, 11734), (11736, 11742), (11823, 11823), (12293, 12295), (12321, 12329)]"

definition word_ranges_11 :: "(cp \<times> cp) list" where
  "word_ranges_11 =
     [(12337, 12341), (12344, 12348), (12353, 12438), (12445, 12447), (12449, 12538),
      (12540, 12543), (12549, 12591), (12593, 12686), (12690, 12693), (12704, 12735),
      (12784, 12799), (12832, 12841), (12872, 12879), (12881, 12895), (12928, 12937),
      (12977, 12991), (13312, 19903), (19968, 42124), (42192, 42237), (42240, 42508),
      (42512, 42539), (42560, 42606), (42623, 42653), (42656, 42735), (42775, 42783),
      (42786, 42888), (42891, 42954), (42960, 42961), (42963, 42963), (42965, 42969),
      (42994, 43009), (43011, 43013)]"

definition word_ranges_12 :: "(cp \<times> cp) list" where
  "word_ranges_12 =
     [(43015, 43018), (43020, 43042), (43056, 43061), (43072, 43123), (43138, 43187),
      (43216, 43225), (43250, 43255), (43259, 43259), (43261, 43262), (43264, 43301),
      (43312, 43334), (43360, 43388), (43396, 43442), (43471, 43481), (43488, 43492),
      (43494, 43518), (43520, 43560), (43584, 43586), (43588, 43595), (43600, 43609),
      (43616, 43638), (43642, 43642), (43646, 43695), (43697, 43697), (43701, 43702),
      (43705, 43709), (43712, 43712), (43714, 43714), (43739, 43741), (43744, 43754),
      (43762, 43764), (43777, 43782)]"

definition word_ranges_13 :: "(cp \<times> cp) list" where
  "word_ranges_13 =
     [(43785, 43790), (43793, 43798), (43808, 43814), (43816, 43822), (43824, 43866),
      (43868, 43881), (43888, 44002), (44016, 44025), (44032, 55203), (55216, 55238),
      (55243, 55291), (63744, 64109), (64112, 64217), (64256, 64262), (64275, 64279),
      (64285, 64285), (64287, 64296), (64298, 64310), (64312, 64316), (64318, 64318),
      (64320, 64321), (64323, 64324), (64326, 64433), (64467, 64829), (64848, 64911),
      (64914, 64967), (65008, 65019), (65136, 65140), (65142, 65276), (65296, 65305),
      (65313, 65338), (65345, 65370)]"

definition word_ranges_14 :: "(cp \<times> cp) list" where
  "word_ranges_14 =
     [(65382, 65470), (65474, 65479), (65482, 65487), (65490, 65495), (65498, 65500),
      (65536, 65547), (65549, 65574), (65576, 65594), (65596, 65597), (65599, 65613),
      (65616, 65629), (65664, 65786), (65799, 65843), (65856, 65912), (65930, 65931),
      (66176, 66204), (66208, 66256), (66273, 66299), (66304, 66339), (66349, 66378),
      (66384, 66421), (66432, 66461), (66464, 66499), (66504, 66511), (66513, 66517),
      (66560, 66717), (66720, 66729), (66736, 66771), (66776, 66811), (66816, 66855),
      (66864, 66915), (66928, 66938)]"

definition word_ranges_15 :: "(cp \<times> cp) list" where
  "word_ranges_15 =
     [(66940, 66954), (66956, 66962), (66964, 66965), (66967, 66977), (66979, 66993),
      (66995, 67001), (67003, 67004), (67072, 67382), (67392, 67413), (67424, 67431),
      (67456, 67461), (67463, 67504), (67506, 67514), (67584, 67589), (67592, 67592),
      (67594, 67637), (67639, 67640), (67644, 67644), (67647, 67669), (67672, 67702),
      (67705, 67742), (67751, 67759), (67808, 67826), (67828, 67829), (67835, 67867),
      (67872, 67897), (67968, 68023), (68028, 68047), (68050, 68096), (68112, 68115),
      (68117, 68119), (68121, 68149)]"

definition word_ranges_16 :: "(cp \<times> cp) list" where
  "word_ranges_16 =
     [(68160, 68168), (68192, 68222), (68224, 68255), (68288, 68295), (68297, 68324),
      (68331, 68335), (68352, 68405), (68416, 68437), (68440, 68466), (68472, 68497),
      (68521, 68527), (68608, 68680), (68736, 68786), (68800, 68850), (68858, 68899),
      (68912, 68921), (69216, 69246), (69248, 69289), (69296, 69297), (69376, 69415),
      (69424, 69445), (69457, 69460), (69488, 69505), (69552, 69579), (69600, 69622),
      (69635, 69687), (69714, 69743), (69745, 69746), (69749, 69749), (69763, 69807),
      (69840, 69864), (69872, 69881)]"

definition word_ranges_17 :: "(cp \<times> cp) list" where
  "word_ranges_17 =
     [(69891, 69926), (69942, 69951), (69956, 69956), (69959, 69959), (69968, 70002),
      (70006, 70006), (70019, 70066), (70081, 70084), (70096, 70106), (70108, 70108),
      (70113, 70132), (70144, 70161), (70163, 70187), (70272, 70278), (70280, 70280),
      (70282, 70285), (70287, 70301), (70303, 70312), (70320, 70366), (70384, 70393),
      (70405, 70412), (70415, 70416), (70419, 70440), (70442, 70448), (70450, 70451),
      (70453, 70457), (70461, 70461), (70480, 70480), (70493, 70497), (70656, 70708),
      (70727, 70730), (70736, 70745)]"

definition word_ranges_18 :: "(cp \<times> cp) list" where
  "word_ranges_18 =
     [(70751, 70753), (70784, 70831), (70852, 70853), (70855, 70855), (70864, 70873),
      (71040, 71086), (71128, 71131), (71168, 71215), (71236, 71236), (71248, 71257),
      (71296, 71338), (71352, 71352), (71360, 71369), (71424, 71450), (71472, 71483),
      (71488, 71494), (71680, 71723), (71840, 71922), (71935, 71942), (71945, 71945),
      (71948, 71955), (71957, 71958), (71960, 71983), (71999, 71999), (72001, 72001),
      (72016, 72025), (72096, 72103), (72106, 72144), (72161, 72161), (72163, 72163),
      (72192, 72192), (72203, 72242)]"

definition word_ranges_19 :: "(cp \<times> cp) list" where
  "word_ranges_19 =
     [(72250, 72250), (72272, 72272), (72284, 72329), (72349, 72349), (72368, 72440),
      (72704, 72712), (72714, 72750), (72768, 72768), (72784, 72812), (72818, 72847),
      (72960, 72966), (72968, 72969), (72971, 73008), (73030, 73030), (73040, 73049),
      (73056, 73061), (73063, 73064), (73066, 73097), (73112, 73112), (73120, 73129),
      (73440, 73458), (73648, 73648), (73664, 73684), (73728, 74649), (74752, 74862),
      (74880, 75075), (77712, 77808), (77824, 78894), (82944, 83526), (92160, 92728),
      (92736, 92766), (92768, 92777)]"

definition word_ranges_20 :: "(cp \<times> cp) list" where
  "word_ranges_20 =
     [(92784, 92862), (92864, 92873), (92880, 92909), (92928, 92975), (92992, 92995),
      (93008, 93017), (93019, 93025), (93027, 93047), (93053, 93071), (93760, 93846),
      (93952, 94026), (94032, 94032), (94099, 94111), (94176, 94177), (94179, 94179),
      (94208, 100343), (100352, 101589), (101632, 101640), (110576, 110579), (110581, 110587),
      (110589, 110590), (110592, 110882), (110928, 110930), (110948, 110951), (110960, 111355),
      (113664, 113770), (113776, 113788), (113792, 113800), (113808, 113817), (119520, 119539),
      (119648, 119672), (119808, 119892)]"

definition word_ranges_21 :: "(cp \<times> cp) list" where
  "word_ranges_21 =
     [(119894, 119964), (119966, 119967), (119970, 119970), (119973, 119974), (119977, 119980),
      (119982, 119993), (119995, 119995), (119997, 120003), (120005, 120069), (120071, 120074),
      (120077, 120084), (120086, 120092), (120094, 120121), (120123, 120126), (120128, 120132),
      (120134, 120134), (120138, 120144), (120146, 120485), (120488, 120512), (120514, 120538),
      (120540, 120570), (120572, 120596), (120598, 120628), (120630, 120654), (120656, 120686),
      (120688, 120712), (120714, 120744), (120746, 120770), (120772, 120779), (120782, 120831),
      (122624, 122654), (123136, 123180)]"

definition word_ranges_22 :: "(cp \<times> cp) list" where
  "word_ranges_22 =
     [(123191, 123197), (123200, 123209), (123214, 123214), (123536, 123565), (123584, 123627),
      (123632, 123641), (124896, 124902), (124904, 124907), (124909, 124910), (124912, 124926),
      (124928, 125124), (125127, 125135), (125184, 125251), (125259, 125259), (125264, 125273),
      (126065, 126123), (126125, 126127), (126129, 126132), (126209, 126253), (126255, 126269),
      (126464, 126467), (126469, 126495), (126497, 126498), (126500, 126500), (126503, 126503),
      (126505, 126514), (126516, 126519), (126521, 126521), (126523, 126523), (126530, 126530),
      (126535, 126535), (126537, 126537)]"

definition word_ranges_23 :: "(cp \<times> cp) list" where
  "word_ranges_23 =
     [(126539, 126539), (126541, 126543), (126545, 126546), (126548, 126548), (126551, 126551),
      (126553, 126553), (126555, 126555), (126557, 126557), (126559, 126559), (126561, 126562),
      (126564, 126564), (126567, 126570), (126572, 126578), (126580, 126583), (126585, 126588),
      (126590, 126590), (126592, 126601), (126603, 126619), (126625, 126627), (126629, 126633),
      (126635, 126651), (127232, 127244), (130032, 130041), (131072, 173791), (173824, 177976),
      (177984, 178205), (178208, 183969), (183984, 191456), (194560, 195101), (196608, 201546)]"

definition is_word :: "cp \<Rightarrow> bool" where
  \<comment> \<open>\<^verbatim>\<open>\w\<close>: \<^verbatim>\<open>str.isalnum()\<close> or the underscore\<close>
  "is_word c =
     (if c < 43015
      then (if c < 3713
           then (if c < 2451
                then (if c < 1568
                     then in_ranges word_ranges_1 c
                     else in_ranges word_ranges_2 c)
                else (if c < 2809
                     then in_ranges word_ranges_3 c
                     else (if c < 3174
                          then in_ranges word_ranges_4 c
                          else in_ranges word_ranges_5 c)))
           else (if c < 7413
                then (if c < 4682
                     then in_ranges word_ranges_6 c
                     else (if c < 6112
                          then in_ranges word_ranges_7 c
                          else in_ranges word_ranges_8 c))
                else (if c < 8486
                     then in_ranges word_ranges_9 c
                     else (if c < 12337
                          then in_ranges word_ranges_10 c
                          else in_ranges word_ranges_11 c))))
      else (if c < 70751
           then (if c < 66940
                then (if c < 43785
                     then in_ranges word_ranges_12 c
                     else (if c < 65382
                          then in_ranges word_ranges_13 c
                          else in_ranges word_ranges_14 c))
                else (if c < 68160
                     then in_ranges word_ranges_15 c
                     else (if c < 69891
                          then in_ranges word_ranges_16 c
                          else in_ranges word_ranges_17 c)))
           else (if c < 119894
                then (if c < 72250
                     then in_ranges word_ranges_18 c
                     else (if c < 92784
                          then in_ranges word_ranges_19 c
                          else in_ranges word_ranges_20 c))
                else (if c < 123191
                     then in_ranges word_ranges_21 c
                     else (if c < 126539
                          then in_ranges word_ranges_22 c
                          else in_ranges word_ranges_23 c)))))"

definition upper_map_1 :: "(cp \<times> cp \<times> cmap) list" where
  "upper_map_1 =
     [(97, 122, Add (- 32)), (181, 181, Add (743)), (223, 223, To [83, 83]),
      (224, 246, Add (- 32)), (248, 254, Add (- 32)), (255, 255, Add (121)),
      (257, 303, Alt (- 1)), (305, 305, Add (- 232)), (307, 311, Alt (- 1)),
      (314, 328, Alt (- 1)), (329, 329, To [700, 78]), (331, 375, Alt (- 1)),
      (378, 382, Alt (- 1)), (383, 383, Add (- 300)), (384, 384, Add (195)),
      (387, 389, Alt (- 1)), (392, 392, Add (- 1)), (396, 396, Add (- 1)), (402, 402, Add (- 1)),
      (405, 405, Add (97)), (409, 409, Add (- 1)), (410, 410, Add (163)), (414, 414, Add (130)),
      (417, 421, Alt (- 1)), (424, 424, Add (- 1)), (429, 429, Add (- 1)), (432, 432, Add (- 1)),
      (436, 438, Alt (- 1)), (441, 441, Add (- 1)), (445, 445, Add (- 1)), (447, 447, Add (56)),
      (453, 453, Add (- 1))]"

definition upper_map_2 :: "(cp \<times> cp \<times> cmap) list" where
  "upper_map_2 =
     [(454, 454, Add (- 2)), (456, 456, Add (- 1)), (457, 457, Add (- 2)), (459, 459, Add (- 1)),
      (460, 460, Add (- 2)), (462, 476, Alt (- 1)), (477, 477, Add (- 79)),
      (479, 495, Alt (- 1)), (496, 496, To [74, 780]), (498, 498, Add (- 1)),
      (499, 499, Add (- 2)), (501, 501, Add (- 1)), (505, 543, Alt (- 1)), (547, 563, Alt (- 1)),
      (572, 572, Add (- 1)), (575, 576, Add (10815)), (578, 578, Add (- 1)),
      (583, 591, Alt (- 1)), (592, 592, Add (10783)), (593, 593, Add (10780)),
      (594, 594, Add (10782)), (595, 595, Add (- 210)), (596, 596, Add (- 206)),
      (598, 599, Add (- 205)), (601, 601, Add (- 202)), (603, 603, Add (- 203)),
      (604, 604, Add (42319)), (608, 608, Add (- 205)), (609, 609, Add (42315)),
      (611, 611, Add (- 207)), (613, 613, Add (42280)), (614, 614, Add (42308))]"

definition upper_map_3 :: "(cp \<times> cp \<times> cmap) list" where
  "upper_map_3 =
     [(616, 616, Add (- 209)), (617, 617, Add (- 211)), (618, 618, Add (42308)),
      (619, 619, Add (10743)), (620, 620, Add (42305)), (623, 623, Add (- 211)),
      (625, 625, Add (10749)), (626, 626, Add (- 213)), (629, 629, Add (- 214)),
      (637, 637, Add (10727)), (640, 640, Add (- 218)), (642, 642, Add (42307)),
      (643, 643, Add (- 218)), (647, 647, Add (42282)), (648, 648, Add (- 218)),
      (649, 649, Add (- 69)), (650, 651, Add (- 217)), (652, 652, Add (- 71)),
      (658, 658, Add (- 219)), (669, 669, Add (42261)), (670, 670, Add (42258)),
      (837, 837, Add (84)), (881, 883, Alt (- 1)), (887, 887, Add (- 1)), (891, 893, Add (130)),
      (912, 912, To [921, 776, 769]), (940, 940, Add (- 38)), (941, 943, Add (- 37)),
      (944, 944, To [933, 776, 769]), (945, 961, Add (- 32)), (962, 962, Add (- 31)),
      (963, 971, Add (- 32))]"

definition upper_map_4 :: "(cp \<times> cp \<times> cmap) list" where
  "upper_map_4 =
     [(972, 972, Add (- 64)), (973, 974, Add (- 63)), (976, 976, Add (- 62)),
      (977, 977, Add (- 57)), (981, 981, Add (- 47)), (982, 982, Add (- 54)),
      (983, 983, Add (- 8)), (985, 1007, Alt (- 1)), (1008, 1008, Add (- 86)),
      (1009, 1009, Add (- 80)), (1010, 1010, Add (7)), (1011, 1011, Add (- 116)),
      (1013, 1013, Add (- 96)), (1016, 1016, Add (- 1)), (1019, 1019, Add (- 1)),
      (1072, 1103, Add (- 32)), (1104, 1119, Add (- 80)), (1121, 1153, Alt (- 1)),
      (1163, 1215, Alt (- 1)), (1218, 1230, Alt (- 1)), (1231, 1231, Add (- 15)),
      (1233, 1327, Alt (- 1)), (1377, 1414, Add (- 48)), (1415, 1415, To [1333, 1362]),
      (4304, 4346, Add (3008)), (4349, 4351, Add (3008)), (5112, 5117, Add (- 8)),
      (7296, 7296, Add (- 6254)), (7297, 7297, Add (- 6253)), (7298, 7298, Add (- 6244)),
      (7299, 7300, Add (- 6242)), (7301, 7301, Add (- 6243))]"

definition upper_map_5 :: "(cp \<times> cp \<times> cmap) list" where
  "upper_map_5 =
     [(7302, 7302, Add (- 6236)), (7303, 7303, Add (- 6181)), (7304, 7304, Add (35266)),
      (7545, 7545, Add (35332)), (7549, 7549, Add (3814)), (7566, 7566, Add (35384)),
      (7681, 7829, Alt (- 1)), (7830, 7830, To [72, 817]), (7831, 7831, To [84, 776]),
      (7832, 7832, To [87, 778]), (7833, 7833, To [89, 778]), (7834, 7834, To [65, 702]),
      (7835, 7835, Add (- 59)), (7841, 7935, Alt (- 1)), (7936, 7943, Add (8)),
      (7952, 7957, Add (8)), (7968, 7975, Add (8)), (7984, 7991, Add (8)), (8000, 8005, Add (8)),
      (8016, 8016, To [933, 787]), (8017, 8017, Add (8)), (8018, 8018, To [933, 787, 768]),
      (8019, 8019, Add (8)), (8020, 8020, To [933, 787, 769]), (8021, 8021, Add (8)),
      (8022, 8022, To [933, 787, 834]), (8023, 8023, Add (8)), (8032, 8039, Add (8)),
      (8048, 8049, Add (74)), (8050, 8053, Add (86)), (8054, 8055, Add (100)),
      (8056, 8057, Add (128))]"

definition upper_map_6 :: "(cp \<times> cp \<times> cmap) list" where
  "upper_map_6 =
     [(8058, 8059, Add (112)), (8060, 8061, Add (126)), (8064, 8064, To [7944, 921]),
      (8065, 8065, To [7945, 921]), (8066, 8066, To [7946, 921]), (8067, 8067, To [7947, 921]),
      (8068, 8068, To [7948, 921]), (8069, 8069, To [7949, 921]), (8070, 8070, To [7950, 921]),
      (8071, 8071, To [7951, 921]), (8072, 8072, To [7944, 921]), (8073, 8073, To [7945, 921]),
      (8074, 8074, To [7946, 921]), (8075, 8075, To [7947, 921]), (8076, 8076, To [7948, 921]),
      (8077, 8077, To [7949, 921]), (8078, 8078, To [7950, 921]), (8079, 8079, To [7951, 921]),
      (8080, 8080, To [7976, 921]), (8081, 8081, To [7977, 921]), (8082, 8082, To [7978, 921]),
      (8083, 8083, To [7979, 921]), (8084, 8084, To [7980, 921]), (8085, 8085, To [7981, 921]),
      (8086, 8086, To [7982, 921]), (8087, 8087, To [7983, 921]), (8088, 8088, To [7976, 921]),
      (8089, 8089, To [7977, 921]), (8090, 8090, To [7978, 921]), (8091, 8091, To [7979, 921]),
      (8092, 8092, To [7980, 921]), (8093, 8093, To [7981, 921])]"

definition upper_map_7 :: "(cp \<times> cp \<times> cmap) list" where
  "upper_map_7 =
     [(8094, 8094, To [7982, 921]), (8095, 8095, To [7983, 921]), (8096, 8096, To [8040, 921]),
      (8097, 8097, To [8041, 921]), (8098, 8098, To [8042, 921]), (8099, 8099, To [8043, 921]),
      (8100, 8100, To [8044, 921]), (8101, 8101, To [8045, 921]), (8102, 8102, To [8046, 921]),
      (8103, 8103, To [8047, 921]), (8104, 8104, To [8040, 921]), (8105, 8105, To [8041, 921]),
      (8106, 8106, To [8042, 921]), (8107, 8107, To [8043, 921]), (8108, 8108, To [8044, 921]),
      (8109, 8109, To [8045, 921]), (8110, 8110, To [8046, 921]), (8111, 8111, To [8047, 921]),
      (8112, 8113, Add (8)), (8114, 8114, To [8122, 921]), (8115, 8115, To [913, 921]),
      (8116, 8116, To [902, 921]), (8118, 8118, To [913, 834]), (8119, 8119, To [913, 834, 921]),
      (8124, 8124, To [913, 921]), (8126, 8126, Add (- 7205)), (8130, 8130, To [8138, 921]),
      (8131, 8131, To [919, 921]), (8132, 8132, To [905, 921]), (8134, 8134, To [919, 834]),
      (8135, 8135, To [919, 834, 921]), (8140, 8140, To [919, 921])]"

definition upper_map_8 :: "(cp \<times> cp \<times> cmap) list" where
  "upper_map_8 =
     [(8144, 8145, Add (8)), (8146, 8146, To [921, 776, 768]), (8147, 8147, To [921, 776, 769]),
      (8150, 8150, To [921, 834]), (8151, 8151, To [921, 776, 834]), (8160, 8161, Add (8)),
      (8162, 8162, To [933, 776, 768]), (8163, 8163, To [933, 776, 769]),
      (8164, 8164, To [929, 787]), (8165, 8165, Add (7)), (8166, 8166, To [933, 834]),
      (8167, 8167, To [933, 776, 834]), (8178, 8178, To [8186, 921]),
      (8179, 8179, To [937, 921]), (8180, 8180, To [911, 921]), (8182, 8182, To [937, 834]),
      (8183, 8183, To [937, 834, 921]), (8188, 8188, To [937, 921]), (8526, 8526, Add (- 28)),
      (8560, 8575, Add (- 16)), (8580, 8580, Add (- 1)), (9424, 9449, Add (- 26)),
      (11312, 11359, Add (- 48)), (11361, 11361, Add (- 1)), (11365, 11365, Add (- 10795)),
      (11366, 11366, Add (- 10792)), (11368, 11372, Alt (- 1)), (11379, 11379, Add (- 1)),
      (11382, 11382, Add (- 1)), (11393, 11491, Alt (- 1)), (11500, 11502, Alt (- 1)),
      (11507, 11507, Add (- 1))]"

definition upper_map_9 :: "(cp \<times> cp \<times> cmap) list" where
  "upper_map_9 =
     [(11520, 11557, Add (- 7264)), (11559, 11559, Add (- 7264)), (11565, 11565, Add (- 7264)),
      (42561, 42605, Alt (- 1)), (42625, 42651, Alt (- 1)), (42787, 42799, Alt (- 1)),
      (42803, 42863, Alt (- 1)), (42874, 42876, Alt (- 1)), (42879, 42887, Alt (- 1)),
      (42892, 42892, Add (- 1)), (42897, 42899, Alt (- 1)), (42900, 42900, Add (48)),
      (42903, 42921, Alt (- 1)), (42933, 42947, Alt (- 1)), (42952, 42954, Alt (- 1)),
      (42961, 42961, Add (- 1)), (42967, 42969, Alt (- 1)), (42998, 42998, Add (- 1)),
      (43859, 43859, Add (- 928)), (43888, 43967, Add (- 38864)), (64256, 64256, To [70, 70]),
      (64257, 64257, To [70, 73]), (64258, 64258, To [70, 76]), (64259, 64259, To [70, 70, 73]),
      (64260, 64260, To [70, 70, 76]), (64261, 64261, To [83, 84]), (64262, 64262, To [83, 84]),
      (64275, 64275, To [1348, 1350]), (64276, 64276, To [1348, 1333]),
      (64277, 64277, To [1348, 1339]), (64278, 64278, To [1358, 1350]),
      (64279, 64279, To [1348, 1341])]"

definition upper_map_10 :: "(cp \<times> cp \<times> cmap) list" where
  "upper_map_10 =
     [(65345, 65370, Add (- 32)), (66600, 66639, Add (- 40)), (66776, 66811, Add (- 40)),
      (66967, 66977, Add (- 39)), (66979, 66993, Add (- 39)), (66995, 67001, Add (- 39)),
      (67003, 67004, Add (- 39)), (68800, 68850, Add (- 64)), (71872, 71903, Add (- 32)),
      (93792, 93823, Add (- 32)), (125218, 125251, Add (- 34))]"

definition upper_cp :: "cp \<Rightarrow> ustr" where
  \<comment> \<open>the full upper-case mapping of one code point\<close>
  "upper_cp c =
     (if c < 8058
      then (if c < 616
           then (if c < 454
                then map_ranges upper_map_1 c
                else map_ranges upper_map_2 c)
           else (if c < 972
                then map_ranges upper_map_3 c
                else (if c < 7302
                     then map_ranges upper_map_4 c
                     else map_ranges upper_map_5 c)))
      else (if c < 8144
           then (if c < 8094
                then map_ranges upper_map_6 c
                else map_ranges upper_map_7 c)
           else (if c < 11520
                then map_ranges upper_map_8 c
                else (if c < 65345
                     then map_ranges upper_map_9 c
                     else map_ranges upper_map_10 c))))"

definition lower_map_1 :: "(cp \<times> cp \<times> cmap) list" where
  "lower_map_1 =
     [(65, 90, Add (32)), (192, 214, Add (32)), (216, 222, Add (32)), (256, 302, Alt (1)),
      (304, 304, To [105, 775]), (306, 310, Alt (1)), (313, 327, Alt (1)), (330, 374, Alt (1)),
      (376, 376, Add (- 121)), (377, 381, Alt (1)), (385, 385, Add (210)), (386, 388, Alt (1)),
      (390, 390, Add (206)), (391, 391, Add (1)), (393, 394, Add (205)), (395, 395, Add (1)),
      (398, 398, Add (79)), (399, 399, Add (202)), (400, 400, Add (203)), (401, 401, Add (1)),
      (403, 403, Add (205)), (404, 404, Add (207)), (406, 406, Add (211)), (407, 407, Add (209)),
      (408, 408, Add (1)), (412, 412, Add (211)), (413, 413, Add (213)), (415, 415, Add (214)),
      (416, 420, Alt (1)), (422, 422, Add (218)), (423, 423, Add (1)), (425, 425, Add (218))]"

definition lower_map_2 :: "(cp \<times> cp \<times> cmap) list" where
  "lower_map_2 =
     [(428, 428, Add (1)), (430, 430, Add (218)), (431, 431, Add (1)), (433, 434, Add (217)),
      (435, 437, Alt (1)), (439, 439, Add (219)), (440, 440, Add (1)), (444, 444, Add (1)),
      (452, 452, Add (2)), (453, 453, Add (1)), (455, 455, Add (2)), (456, 456, Add (1)),
      (458, 458, Add (2)), (459, 475, Alt (1)), (478, 494, Alt (1)), (497, 497, Add (2)),
      (498, 500, Alt (1)), (502, 502, Add (- 97)), (503, 503, Add (- 56)), (504, 542, Alt (1)),
      (544, 544, Add (- 130)), (546, 562, Alt (1)), (570, 570, Add (10795)), (571, 571, Add (1)),
      (573, 573, Add (- 163)), (574, 574, Add (10792)), (577, 577, Add (1)),
      (579, 579, Add (- 195)), (580, 580, Add (69)), (581, 581, Add (71)), (582, 590, Alt (1)),
      (880, 882, Alt (1))]"

definition lower_map_3 :: "(cp \<times> cp \<times> cmap) list" where
  "lower_map_3 =
     [(886, 886, Add (1)), (895, 895, Add (116)), (902, 902, Add (38)), (904, 906, Add (37)),
      (908, 908, Add (64)), (910, 911, Add (63)), (913, 929, Add (32)), (931, 939, Add (32)),
      (975, 975, Add (8)), (984, 1006, Alt (1)), (1012, 1012, Add (- 60)), (1015, 1015, Add (1)),
      (1017, 1017, Add (- 7)), (1018, 1018, Add (1)), (1021, 1023, Add (- 130)),
      (1024, 1039, Add (80)), (1040, 1071, Add (32)), (1120, 1152, Alt (1)),
      (1162, 1214, Alt (1)), (1216, 1216, Add (15)), (1217, 1229, Alt (1)),
      (1232, 1326, Alt (1)), (1329, 1366, Add (48)), (4256, 4293, Add (7264)),
      (4295, 4295, Add (7264)), (4301, 4301, Add (7264)), (5024, 5103, Add (38864)),
      (5104, 5109, Add (8)), (7312, 7354, Add (- 3008)), (7357, 7359, Add (- 3008)),
      (7680, 7828, Alt (1)), (7838, 7838, Add (- 7615))]"

definition lower_map_4 :: "(cp \<times> cp \<times> cmap) list" where
  "lower_map_4 =
     [(7840, 7934, Alt (1)), (7944, 7951, Add (- 8)), (7960, 7965, Add (- 8)),
      (7976, 7983, Add (- 8)), (7992, 7999, Add (- 8)), (8008, 8013, Add (- 8)),
      (8025, 8031, Alt (- 8)), (8040, 8047, Add (- 8)), (8072, 8079, Add (- 8)),
      (8088, 8095, Add (- 8)), (8104, 8111, Add (- 8)), (8120, 8121, Add (- 8)),
      (8122, 8123, Add (- 74)), (8124, 8124, Add (- 9)), (8136, 8139, Add (- 86)),
      (8140, 8140, Add (- 9)), (8152, 8153, Add (- 8)), (8154, 8155, Add (- 100)),
      (8168, 8169, Add (- 8)), (8170, 8171, Add (- 112)), (8172, 8172, Add (- 7)),
      (8184, 8185, Add (- 128)), (8186, 8187, Add (- 126)), (8188, 8188, Add (- 9)),
      (8486, 8486, Add (- 7517)), (8490, 8490, Add (- 8383)), (8491, 8491, Add (- 8262)),
      (8498, 8498, Add (28)), (8544, 8559, Add (16)), (8579, 8579, Add (1)),
      (9398, 9423, Add (26)), (11264, 11311, Add (48))]"

definition lower_map_5 :: "(cp \<times> cp \<times> cmap) list" where
  "lower_map_5 =
     [(11360, 11360, Add (1)), (11362, 11362, Add (- 10743)), (11363, 11363, Add (- 3814)),
      (11364, 11364, Add (- 10727)), (11367, 11371, Alt (1)), (11373, 11373, Add (- 10780)),
      (11374, 11374, Add (- 10749)), (11375, 11375, Add (- 10783)),
      (11376, 11376, Add (- 10782)), (11378, 11378, Add (1)), (11381, 11381, Add (1)),
      (11390, 11391, Add (- 10815)), (11392, 11490, Alt (1)), (11499, 11501, Alt (1)),
      (11506, 11506, Add (1)), (42560, 42604, Alt (1)), (42624, 42650, Alt (1)),
      (42786, 42798, Alt (1)), (42802, 42862, Alt (1)), (42873, 42875, Alt (1)),
      (42877, 42877, Add (- 35332)), (42878, 42886, Alt (1)), (42891, 42891, Add (1)),
      (42893, 42893, Add (- 42280)), (42896, 42898, Alt (1)), (42902, 42920, Alt (1)),
      (42922, 42922, Add (- 42308)), (42923, 42923, Add (- 42319)),
      (42924, 42924, Add (- 42315)), (42925, 42925, Add (- 42305)),
      (42926, 42926, Add (- 42308)), (42928, 42928, Add (- 42258))]"

definition lower_map_6 :: "(cp \<times> cp \<times> cmap) list" where
  "lower_map_6 =
     [(42929, 42929, Add (- 42282)), (42930, 42930, Add (- 42261)), (42931, 42931, Add (928)),
      (42932, 42946, Alt (1)), (42948, 42948, Add (- 48)), (42949, 42949, Add (- 42307)),
      (42950, 42950, Add (- 35384)), (42951, 42953, Alt (1)), (42960, 42960, Add (1)),
      (42966, 42968, Alt (1)), (42997, 42997, Add (1)), (65313, 65338, Add (32)),
      (66560, 66599, Add (40)), (66736, 66771, Add (40)), (66928, 66938, Add (39)),
      (66940, 66954, Add (39)), (66956, 66962, Add (39)), (66964, 66965, Add (39)),
      (68736, 68786, Add (64)), (71840, 71871, Add (32)), (93760, 93791, Add (32)),
      (125184, 125217, Add (34))]"

definition lower_cp :: "cp \<Rightarrow> ustr" where
  \<comment> \<open>the full lower-case mapping of one code point\<close>
  "lower_cp c =
     (if c < 7840
      then (if c < 428
           then map_ranges lower_map_1 c
           else (if c < 886
                then map_ranges lower_map_2 c
                else map_ranges lower_map_3 c))
      else (if c < 11360
           then map_ranges lower_map_4 c
           else (if c < 42929
                then map_ranges lower_map_5 c
                else map_ranges lower_map_6 c)))"

definition ignorable_ranges_1 :: "(cp \<times> cp) list" where
  "ignorable_ranges_1 =
     [(39, 39), (46, 46), (58, 58), (94, 94), (96, 96), (168, 168), (173, 173), (175, 175),
      (180, 180), (183, 184), (688, 879), (884, 885), (890, 890), (900, 901), (903, 903),
      (1155, 1161), (1369, 1369), (1375, 1375), (1425, 1469), (1471, 1471), (1473, 1474),
      (1476, 1477), (1479, 1479), (1524, 1524), (1536, 1541), (1552, 1562), (1564, 1564),
      (1600, 1600), (1611, 1631), (1648, 1648), (1750, 1757), (1759, 1768)]"

definition ignorable_ranges_2 :: "(cp \<times> cp) list" where
  "ignorable_ranges_2 =
     [(1770, 1773), (1807, 1807), (1809, 1809), (1840, 1866), (1958, 1968), (2027, 2037),
      (2042, 2042), (2045, 2045), (2070, 2093), (2137, 2139), (2184, 2184), (2192, 2193),
      (2200, 2207), (2249, 2306), (2362, 2362), (2364, 2364), (2369, 2376), (2381, 2381),
      (2385, 2391), (2402, 2403), (2417, 2417), (2433, 2433), (2492, 2492), (2497, 2500),
      (2509, 2509), (2530, 2531), (2558, 2558), (2561, 2562), (2620, 2620), (2625, 2626),
      (2631, 2632), (2635, 2637)]"

definition ignorable_ranges_3 :: "(cp \<times> cp) list" where
  "ignorable_ranges_3 =
     [(2641, 2641), (2672, 2673), (2677, 2677), (2689, 2690), (2748, 2748), (2753, 2757),
      (2759, 2760), (2765, 2765), (2786, 2787), (2810, 2815), (2817, 2817), (2876, 2876),
      (2879, 2879), (2881, 2884), (2893, 2893), (2901, 2902), (2914, 2915), (2946, 2946),
      (3008, 3008), (3021, 3021), (3072, 3072), (3076, 3076), (3132, 3132), (3134, 3136),
      (3142, 3144), (3146, 3149), (3157, 3158), (3170, 3171), (3201, 3201), (3260, 3260),
      (3263, 3263), (3270, 3270)]"

definition ignorable_ranges_4 :: "(cp \<times> cp) list" where
  "ignorable_ranges_4 =
     [(3276, 3277), (3298, 3299), (3328, 3329), (3387, 3388), (3393, 3396), (3405, 3405),
      (3426, 3427), (3457, 3457), (3530, 3530), (3538, 3540), (3542, 3542), (3633, 3633),
      (3636, 3642), (3654, 3662), (3761, 3761), (3764, 3772), (3782, 3782), (3784, 3789),
      (3864, 3865), (3893, 3893), (3895, 3895), (3897, 3897), (3953, 3966), (3968, 3972),
      (3974, 3975), (3981, 3991), (3993, 4028), (4038, 4038), (4141, 4144), (4146, 4151),
      (4153, 4154), (4157, 4158)]"

definition ignorable_ranges_5 :: "(cp \<times> cp) list" where
  "ignorable_ranges_5 =
     [(4184, 4185), (4190, 4192), (4209, 4212), (4226, 4226), (4229, 4230), (4237, 4237),
      (4253, 4253), (4348, 4348), (4957, 4959), (5906, 5908), (5938, 5939), (5970, 5971),
      (6002, 6003), (6068, 6069), (6071, 6077), (6086, 6086), (6089, 6099), (6103, 6103),
      (6109, 6109), (6155, 6159), (6211, 6211), (6277, 6278), (6313, 6313), (6432, 6434),
      (6439, 6440), (6450, 6450), (6457, 6459), (6679, 6680), (6683, 6683), (6742, 6742),
      (6744, 6750), (6752, 6752)]"

definition ignorable_ranges_6 :: "(cp \<times> cp) list" where
  "ignorable_ranges_6 =
     [(6754, 6754), (6757, 6764), (6771, 6780), (6783, 6783), (6823, 6823), (6832, 6862),
      (6912, 6915), (6964, 6964), (6966, 6970), (6972, 6972), (6978, 6978), (7019, 7027),
      (7040, 7041), (7074, 7077), (7080, 7081), (7083, 7085), (7142, 7142), (7144, 7145),
      (7149, 7149), (7151, 7153), (7212, 7219), (7222, 7223), (7288, 7293), (7376, 7378),
      (7380, 7392), (7394, 7400), (7405, 7405), (7412, 7412), (7416, 7417), (7468, 7530),
      (7544, 7544), (7579, 7679)]"

definition ignorable_ranges_7 :: "(cp \<times> cp) list" where
  "ignorable_ranges_7 =
     [(8125, 8125), (8127, 8129), (8141, 8143), (8157, 8159), (8173, 8175), (8189, 8190),
      (8203, 8207), (8216, 8217), (8228, 8228), (8231, 8231), (8234, 8238), (8288, 8292),
      (8294, 8303), (8305, 8305), (8319, 8319), (8336, 8348), (8400, 8432), (11388, 11389),
      (11503, 11505), (11631, 11631), (11647, 11647), (11744, 11775), (11823, 11823),
      (12293, 12293), (12330, 12333), (12337, 12341), (12347, 12347), (12441, 12446),
      (12540, 12542), (40981, 40981), (42232, 42237), (42508, 42508)]"

definition ignorable_ranges_8 :: "(cp \<times> cp) list" where
  "ignorable_ranges_8 =
     [(42607, 42610), (42612, 42621), (42623, 42623), (42652, 42655), (42736, 42737),
      (42752, 42785), (42864, 42864), (42888, 42890), (42994, 42996), (43000, 43001),
      (43010, 43010), (43014, 43014), (43019, 43019), (43045, 43046), (43052, 43052),
      (43204, 43205), (43232, 43249), (43263, 43263), (43302, 43309), (43335, 43345),
      (43392, 43394), (43443, 43443), (43446, 43449), (43452, 43453), (43471, 43471),
      (43493, 43494), (43561, 43566), (43569, 43570), (43573, 43574), (43587, 43587),
      (43596, 43596), (43632, 43632)]"

definition ignorable_ranges_9 :: "(cp \<times> cp) list" where
  "ignorable_ranges_9 =
     [(43644, 43644), (43696, 43696), (43698, 43700), (43703, 43704), (43710, 43711),
      (43713, 43713), (43741, 43741), (43756, 43757), (43763, 43764), (43766, 43766),
      (43867, 43871), (43881, 43883), (44005, 44005), (44008, 44008), (44013, 44013),
      (64286, 64286), (64434, 64450), (65024, 65039), (65043, 65043), (65056, 65071),
      (65106, 65106), (65109, 65109), (65279, 65279), (65287, 65287), (65294, 65294),
      (65306, 65306), (65342, 65342), (65344, 65344), (65392, 65392), (65438, 65439),
      (65507, 65507), (65529, 65531)]"

definition ignorable_ranges_10 :: "(cp \<times> cp) list" where
  "ignorable_ranges_10 =
     [(66045, 66045), (66272, 66272), (66422, 66426), (67456, 67461), (67463, 67504),
      (67506, 67514), (68097, 68099), (68101, 68102), (68108, 68111), (68152, 68154),
      (68159, 68159), (68325, 68326), (68900, 68903), (69291, 69292), (69446, 69456),
      (69506, 69509), (69633, 69633), (69688, 69702), (69744, 69744), (69747, 69748),
      (69759, 69761), (69811, 69814), (69817, 69818), (69821, 69821), (69826, 69826),
      (69837, 69837), (69888, 69890), (69927, 69931), (69933, 69940), (70003, 70003),
      (70016, 70017), (70070, 70078)]"

definition ignorable_ranges_11 :: "(cp \<times> cp) list" where
  "ignorable_ranges_11 =
     [(70089, 70092), (70095, 70095), (70191, 70193), (70196, 70196), (70198, 70199),
      (70206, 70206), (70367, 70367), (70371, 70378), (70400, 70401), (70459, 70460),
      (70464, 70464), (70502, 70508), (70512, 70516), (70712, 70719), (70722, 70724),
      (70726, 70726), (70750, 70750), (70835, 70840), (70842, 70842), (70847, 70848),
      (70850, 70851), (71090, 71093), (71100, 71101), (71103, 71104), (71132, 71133),
      (71219, 71226), (71229, 71229), (71231, 71232), (71339, 71339), (71341, 71341),
      (71344, 71349), (71351, 71351)]"

definition ignorable_ranges_12 :: "(cp \<times> cp) list" where
  "ignorable_ranges_12 =
     [(71453, 71455), (71458, 71461), (71463, 71467), (71727, 71735), (71737, 71738),
      (71995, 71996), (71998, 71998), (72003, 72003), (72148, 72151), (72154, 72155),
      (72160, 72160), (72193, 72202), (72243, 72248), (72251, 72254), (72263, 72263),
      (72273, 72278), (72281, 72283), (72330, 72342), (72344, 72345), (72752, 72758),
      (72760, 72765), (72767, 72767), (72850, 72871), (72874, 72880), (72882, 72883),
      (72885, 72886), (73009, 73014), (73018, 73018), (73020, 73021), (73023, 73029),
      (73031, 73031), (73104, 73105)]"

definition ignorable_ranges_13 :: "(cp \<times> cp) list" where
  "ignorable_ranges_13 =
     [(73109, 73109), (73111, 73111), (73459, 73460), (78896, 78904), (92912, 92916),
      (92976, 92982), (92992, 92995), (94031, 94031), (94095, 94111), (94176, 94177),
      (94179, 94180), (110576, 110579), (110581, 110587), (110589, 110590), (113821, 113822),
      (113824, 113827), (118528, 118573), (118576, 118598), (119143, 119145), (119155, 119170),
      (119173, 119179), (119210, 119213), (119362, 119364), (121344, 121398), (121403, 121452),
      (121461, 121461), (121476, 121476), (121499, 121503), (121505, 121519), (122880, 122886),
      (122888, 122904), (122907, 122913)]"

definition ignorable_ranges_14 :: "(cp \<times> cp) list" where
  "ignorable_ranges_14 =
     [(122915, 122916), (122918, 122922), (123184, 123197), (123566, 123566), (123628, 123631),
      (125136, 125142), (125252, 125259), (127995, 127999), (917505, 917505), (917536, 917631),
      (917760, 917999)]"

definition case_ignorable :: "cp \<Rightarrow> bool" where
  \<comment> \<open>the code points that the final-sigma rule skips\<close>
  "case_ignorable c =
     (if c < 42607
      then (if c < 3276
           then (if c < 1770
                then in_ranges ignorable_ranges_1 c
                else (if c < 2641
                     then in_ranges ignorable_ranges_2 c
                     else in_ranges ignorable_ranges_3 c))
           else (if c < 6754
                then (if c < 4184
                     then in_ranges ignorable_ranges_4 c
                     else in_ranges ignorable_ranges_5 c)
                else (if c < 8125
                     then in_ranges ignorable_ranges_6 c
                     else in_ranges ignorable_ranges_7 c)))
      else (if c < 70089
           then (if c < 43644
                then in_ranges ignorable_ranges_8 c
                else (if c < 66045
                     then in_ranges ignorable_ranges_9 c
                     else in_ranges ignorable_ranges_10 c))
           else (if c < 73109
                then (if c < 71453
                     then in_ranges ignorable_ranges_11 c
                     else in_ranges ignorable_ranges_12 c)
                else (if c < 122915
                     then in_ranges ignorable_ranges_13 c
                     else in_ranges ignorable_ranges_14 c))))"

definition cased_ranges_1 :: "(cp \<times> cp) list" where
  "cased_ranges_1 =
     [(65, 90), (97, 122), (170, 170), (181, 181), (186, 186), (192, 214), (216, 246),
      (248, 442), (444, 447), (452, 659), (661, 687), (880, 883), (886, 887), (891, 893),
      (895, 895), (902, 902), (904, 906), (908, 908), (910, 929), (931, 1013), (1015, 1153),
      (1162, 1327), (1329, 1366), (1376, 1416), (4256, 4293), (4295, 4295), (4301, 4301),
      (4304, 4346), (4349, 4351), (5024, 5109), (5112, 5117), (7296, 7304)]"

definition cased_ranges_2 :: "(cp \<times> cp) list" where
  "cased_ranges_2 =
     [(7312, 7354), (7357, 7359), (7424, 7467), (7531, 7543), (7545, 7578), (7680, 7957),
      (7960, 7965), (7968, 8005), (8008, 8013), (8016, 8023), (8025, 8025), (8027, 8027),
      (8029, 8029), (8031, 8061), (8064, 8116), (8118, 8124), (8126, 8126), (8130, 8132),
      (8134, 8140), (8144, 8147), (8150, 8155), (8160, 8172), (8178, 8180), (8182, 8188),
      (8450, 8450), (8455, 8455), (8458, 8467), (8469, 8469), (8473, 8477), (8484, 8484),
      (8486, 8486), (8488, 8488)]"

definition cased_ranges_3 :: "(cp \<times> cp) list" where
  "cased_ranges_3 =
     [(8490, 8493), (8495, 8500), (8505, 8505), (8508, 8511), (8517, 8521), (8526, 8526),
      (8544, 8575), (8579, 8580), (9398, 9449), (11264, 11387), (11390, 11492), (11499, 11502),
      (11506, 11507), (11520, 11557), (11559, 11559), (11565, 11565), (42560, 42605),
      (42624, 42651), (42786, 42863), (42865, 42887), (42891, 42894), (42896, 42954),
      (42960, 42961), (42963, 42963), (42965, 42969), (42997, 42998), (43002, 43002),
      (43824, 43866), (43872, 43880), (43888, 43967), (64256, 64262), (64275, 64279)]"

definition cased_ranges_4 :: "(cp \<times> cp) list" where
  "cased_ranges_4 =
     [(65313, 65338), (65345, 65370), (66560, 66639), (66736, 66771), (66776, 66811),
      (66928, 66938), (66940, 66954), (66956, 66962), (66964, 66965), (66967, 66977),
      (66979, 66993), (66995, 67001), (67003, 67004), (68736, 68786), (68800, 68850),
      (71840, 71903), (93760, 93823), (119808, 119892), (119894, 119964), (119966, 119967),
      (119970, 119970), (119973, 119974), (119977, 119980), (119982, 119993), (119995, 119995),
      (119997, 120003), (120005, 120069), (120071, 120074), (120077, 120084), (120086, 120092),
      (120094, 120121), (120123, 120126)]"

definition cased_ranges_5 :: "(cp \<times> cp) list" where
  "cased_ranges_5 =
     [(120128, 120132), (120134, 120134), (120138, 120144), (120146, 120485), (120488, 120512),
      (120514, 120538), (120540, 120570), (120572, 120596), (120598, 120628), (120630, 120654),
      (120656, 120686), (120688, 120712), (120714, 120744), (120746, 120770), (120772, 120779),
      (122624, 122633), (122635, 122654), (125184, 125251), (127280, 127305), (127312, 127337),
      (127344, 127369)]"

definition cased :: "cp \<Rightarrow> bool" where
  \<comment> \<open>the cased code points among those the final-sigma rule does not skip\<close>
  "cased c =
     (if c < 8490
      then (if c < 7312
           then in_ranges cased_ranges_1 c
           else in_ranges cased_ranges_2 c)
      else (if c < 65313
           then in_ranges cased_ranges_3 c
           else (if c < 120128
                then in_ranges cased_ranges_4 c
                else in_ranges cased_ranges_5 c)))"

definition upper :: "ustr \<Rightarrow> ustr" where
  \<comment> \<open>\<^verbatim>\<open>s.upper()\<close>\<close>
  "upper s = concat (map upper_cp s)"

definition final_sigma :: "ustr \<Rightarrow> ustr \<Rightarrow> bool" where
  \<comment> \<open>for a capital sigma with the reversed text before it and the text after it: the
      nearest code point before that is not skipped is cased, and the nearest after,
      if there is one, is not\<close>
  "final_sigma before after \<longleftrightarrow>
     (case dropWhile case_ignorable before of [] \<Rightarrow> False | p # ps \<Rightarrow> cased p) \<and>
     (case dropWhile case_ignorable after of [] \<Rightarrow> True | n # ns \<Rightarrow> \<not> cased n)"

fun lower_from :: "ustr \<Rightarrow> ustr \<Rightarrow> ustr" where
  "lower_from before [] = []"
| "lower_from before (c # rest) =
     (if c = 931 then [if final_sigma before rest then 962 else 963] else lower_cp c)
     @ lower_from (c # before) rest"

definition lower :: "ustr \<Rightarrow> ustr" where
  \<comment> \<open>\<^verbatim>\<open>s.lower()\<close>\<close>
  "lower s = lower_from [] s"

definition strip_by :: "(cp \<Rightarrow> bool) \<Rightarrow> ustr \<Rightarrow> ustr" where
  "strip_by p s = rev (dropWhile p (rev (dropWhile p s)))"

definition strip :: "ustr \<Rightarrow> ustr" where
  \<comment> \<open>\<^verbatim>\<open>s.strip()\<close>\<close>
  "strip s = strip_by is_space s"

definition strip_chars :: "ustr \<Rightarrow> ustr \<Rightarrow> ustr" where
  \<comment> \<open>\<^verbatim>\<open>s.strip(chars)\<close>\<close>
  "strip_chars chars s = strip_by (\<lambda>c. c \<in> set chars) s"

definition replace_char :: "cp \<Rightarrow> ustr \<Rightarrow> ustr \<Rightarrow> ustr" where
  \<comment> \<open>\<^verbatim>\<open>s.replace(old, new)\<close> for a one-character \<^verbatim>\<open>old\<close>\<close>
  "replace_char old new s = concat (map (\<lambda>c. if c = old then new else [c]) s)"

fun join :: "ustr \<Rightarrow> ustr list \<Rightarrow> ustr" where
  "join sep [] = []"
| "join sep [x] = x"
| "join sep (x # y # ys) = x @ sep @ join sep (y # ys)"

fun split_on :: "cp \<Rightarrow> ustr \<Rightarrow> ustr list" where
  \<comment> \<open>\<^verbatim>\<open>s.split(sep)\<close> for a one-character separator: the empty string gives one empty piece\<close>
  "split_on sep [] = [[]]"
| "split_on sep (c # cs) =
     (case split_on sep cs of
        [] \<Rightarrow> (if c = sep then [[], []] else [[c]])
      | p # ps \<Rightarrow> (if c = sep then [] # p # ps else (c # p) # ps))"

fun split_ws :: "ustr \<Rightarrow> ustr list" where
  \<comment> \<open>\<^verbatim>\<open>s.split()\<close>: pieces between runs of whitespace, never an empty piece\<close>
  "split_ws [] = []"
| "split_ws (c # cs) =
     (if is_space c then split_ws cs
      else (case cs of
              [] \<Rightarrow> [[c]]
            | d # ds \<Rightarrow> (if is_space d then [c] # split_ws cs
                        else (case split_ws cs of [] \<Rightarrow> [[c]] | p # ps \<Rightarrow> (c # p) # ps))))"

definition endswith :: "ustr \<Rightarrow> ustr \<Rightarrow> bool" where
  "endswith s suf \<longleftrightarrow> prefix (rev suf) (rev s)"

fun contains :: "ustr \<Rightarrow> ustr \<Rightarrow> bool" where
  \<comment> \<open>\<^verbatim>\<open>kw in s\<close>\<close>
  "contains kw [] = (kw = [])"
| "contains kw (c # cs) = (prefix kw (c # cs) \<or> contains kw cs)"

definition truthy :: "ustr option \<Rightarrow> bool" where
  \<comment> \<open>the truth value of an optional string: neither \<^verbatim>\<open>None\<close> nor empty\<close>
  "truthy v \<longleftrightarrow> (case v of None \<Rightarrow> False | Some s \<Rightarrow> s \<noteq> [])"

definition or_empty :: "ustr option \<Rightarrow> ustr" where
  \<comment> \<open>\<^verbatim>\<open>v or ""\<close>\<close>
  "or_empty v = (case v of None \<Rightarrow> [] | Some s \<Rightarrow> s)"

definition or_none :: "ustr \<Rightarrow> ustr option" where
  \<comment> \<open>\<^verbatim>\<open>s or None\<close>\<close>
  "or_none s = (if s = [] then None else Some s)"

section \<open>The fragment of Python's \<^verbatim>\<open>re\<close> the sources use\<close>

text \<open>
  A backtracking matcher in continuation style: alternatives are tried in the order
  \<^verbatim>\<open>re\<close> tries them (left alternative first; a greedy repetition longest first, a lazy
  one shortest first), and the first complete match wins. Every repetition in the
  sources is over a single character class. A state is the position and the groups
  captured so far (number, start, end).
\<close>

type_synonym caps = "(nat \<times> nat \<times> nat) list"

datatype rx =
    Cls "cp \<Rightarrow> bool"
  | Lit ustr
  | Rep bool nat "nat option" "cp \<Rightarrow> bool"
  | Seq rx rx
  | Alt rx rx
  | Grp nat rx
  | Eps
  | Bol
  | Eol
  | WordB

fun first_some :: "('a \<Rightarrow> 'b option) \<Rightarrow> 'a list \<Rightarrow> 'b option" where
  "first_some f [] = None"
| "first_some f (x # xs) = (case f x of Some r \<Rightarrow> Some r | None \<Rightarrow> first_some f xs)"

definition word_at :: "ustr \<Rightarrow> nat \<Rightarrow> bool" where
  "word_at s i \<longleftrightarrow> i < length s \<and> is_word (s ! i)"

definition at_boundary :: "ustr \<Rightarrow> nat \<Rightarrow> bool" where
  \<comment> \<open>\<^verbatim>\<open>\b\<close>: a word character on exactly one side\<close>
  "at_boundary s i \<longleftrightarrow> (i > 0 \<and> word_at s (i - 1)) \<noteq> word_at s i"

definition at_end :: "ustr \<Rightarrow> nat \<Rightarrow> bool" where
  \<comment> \<open>\<^verbatim>\<open>$\<close>: the end, or just before a final newline\<close>
  "at_end s i \<longleftrightarrow> i = length s \<or> (Suc i = length s \<and> s ! i = 10)"

primrec rx_m :: "rx \<Rightarrow> ustr \<Rightarrow> (nat \<times> caps \<Rightarrow> (nat \<times> caps) option) \<Rightarrow> nat \<times> caps \<Rightarrow> (nat \<times> caps) option" where
  "rx_m (Cls p) s k = (\<lambda>(i, g). if i < length s \<and> p (s ! i) then k (Suc i, g) else None)"
| "rx_m (Lit w) s k = (\<lambda>(i, g). if take (length w) (drop i s) = w then k (i + length w, g) else None)"
| "rx_m (Rep greedy lo hi p) s k = (\<lambda>(i, g).
     let run = length (takeWhile p (drop i s));
         top = (case hi of None \<Rightarrow> run | Some h \<Rightarrow> min h run);
         ns = [lo..<Suc top]
     in first_some (\<lambda>n. k (i + n, g)) (if greedy then rev ns else ns))"
| "rx_m (Seq a b) s k = rx_m a s (rx_m b s k)"
| "rx_m (Alt a b) s k = (\<lambda>st. case rx_m a s k st of Some r \<Rightarrow> Some r | None \<Rightarrow> rx_m b s k st)"
| "rx_m (Grp n a) s k = (\<lambda>(i, g). rx_m a s (\<lambda>(j, g'). k (j, (n, i, j) # g')) (i, g))"
| "rx_m Eps s k = k"
| "rx_m Bol s k = (\<lambda>(i, g). if i = 0 then k (i, g) else None)"
| "rx_m Eol s k = (\<lambda>(i, g). if at_end s i then k (i, g) else None)"
| "rx_m WordB s k = (\<lambda>(i, g). if at_boundary s i then k (i, g) else None)"

definition match_at :: "rx \<Rightarrow> ustr \<Rightarrow> nat \<Rightarrow> (nat \<times> caps) option" where
  \<comment> \<open>the match starting at position \<open>i\<close>, if any: its end and its groups\<close>
  "match_at r s i = rx_m r s Some (i, [])"

definition search :: "rx \<Rightarrow> ustr \<Rightarrow> (nat \<times> nat \<times> caps) option" where
  \<comment> \<open>\<^verbatim>\<open>re.search\<close>: the leftmost start that matches\<close>
  "search r s = first_some (\<lambda>i. map_option (\<lambda>(j, g). (i, j, g)) (match_at r s i)) [0..<Suc (length s)]"

definition slice :: "ustr \<Rightarrow> nat \<Rightarrow> nat \<Rightarrow> ustr" where
  \<comment> \<open>\<^verbatim>\<open>s[i:j]\<close>\<close>
  "slice s i j = take (j - i) (drop i s)"

definition group0 :: "ustr \<Rightarrow> nat \<times> nat \<times> caps \<Rightarrow> ustr" where
  "group0 s m = (case m of (i, j, g) \<Rightarrow> slice s i j)"

definition group :: "ustr \<Rightarrow> nat \<times> nat \<times> caps \<Rightarrow> nat \<Rightarrow> ustr" where
  \<comment> \<open>\<^verbatim>\<open>m.group(n)\<close> for a group that took part in the match\<close>
  "group s m n = (case m of (i, j, g) \<Rightarrow> (case map_of g n of Some (a, b) \<Rightarrow> slice s a b | None \<Rightarrow> []))"

fun sub_scan :: "rx \<Rightarrow> ustr \<Rightarrow> ustr \<Rightarrow> nat list \<Rightarrow> nat \<Rightarrow> ustr" where
  "sub_scan r repl s [] nxt = []"
| "sub_scan r repl s (i # rest) nxt =
     (if i < nxt then sub_scan r repl s rest nxt
      else (case match_at r s i of
              Some (j, g) \<Rightarrow>
                (if i < j then repl @ sub_scan r repl s rest j
                 else repl @ slice s i (Suc i) @ sub_scan r repl s rest nxt)
            | None \<Rightarrow> slice s i (Suc i) @ sub_scan r repl s rest nxt))"

definition re_sub :: "rx \<Rightarrow> ustr \<Rightarrow> ustr \<Rightarrow> ustr" where
  \<comment> \<open>\<^verbatim>\<open>re.sub(r, repl, s)\<close> with a literal replacement: the non-overlapping matches, left to right\<close>
  "re_sub r repl s = sub_scan r repl s [0..<Suc (length s)] 0"

section \<open>The classifier (\<^verbatim>\<open>app/classify.py\<close>)\<close>

text \<open>
  Scores and confidences are Python floats; they are modelled as rationals (\<open>1.2\<close> as
  \<open>6/5\<close>). Both tables are dictionaries in insertion order, keyed by the category
  letters \<^verbatim>\<open>A B C D E F G H I J K N O P Q R S T U V X Z\<close> (code points 65..90).
\<close>

datatype py_error = KeyError | IndexError | InvalidRequestError | IntegrityError | ProviderError

type_synonym clc_result = "ustr \<times> ustr \<times> rat \<times> ustr"

type_synonym scores = "(ustr \<times> rat) list"

definition CLC_LABELS :: "(ustr \<times> ustr) list" where
  "CLC_LABELS =
    [([65], [39532, 20811, 24605, 20027, 20041, 12289, 21015, 23425, 20027, 20041, 12289, 27611, 27901, 19996, 24605, 24819, 12289, 37011, 23567, 24179, 29702, 35770]),
     ([66], [21746, 23398, 12289, 23447, 25945]),
     ([67], [31038, 20250, 31185, 23398, 24635, 35770]),
     ([68], [25919, 27835, 12289, 27861, 24459]),
     ([69], [20891, 20107]),
     ([70], [32463, 27982]),
     ([71], [25991, 21270, 12289, 31185, 23398, 12289, 25945, 32946, 12289, 20307, 32946]),
     ([72], [35821, 35328, 12289, 25991, 23383]),
     ([73], [25991, 23398]),
     ([74], [33402, 26415]),
     ([75], [21382, 21490, 12289, 22320, 29702]),
     ([78], [33258, 28982, 31185, 23398, 24635, 35770]),
     ([79], [25968, 29702, 31185, 23398, 21644, 21270, 23398]),
     ([80], [22825, 25991, 23398, 12289, 22320, 29699, 31185, 23398]),
     ([81], [29983, 29289, 31185, 23398]),
     ([82], [21307, 33647, 12289, 21355, 29983]),
     ([83], [20892, 19994, 31185, 23398]),
     ([84], [24037, 19994, 25216, 26415]),
     ([85], [20132, 36890, 36816, 36755]),
     ([86], [33322, 31354, 12289, 33322, 22825]),
     ([88], [29615, 22659, 31185, 23398, 12289, 23433, 20840, 31185, 23398]),
     ([90], [32508, 21512, 24615, 22270, 20070])]"

definition KEYWORDS :: "(ustr \<times> ustr list) list" where
  "KEYWORDS =
    [([65],
       [[39532, 20811, 24605],
        [21015, 23425],
        [27611, 27901, 19996],
        [37011, 23567, 24179],
        [31038, 20250, 20027, 20041, 29702, 35770]]),
     ([66],
       [[21746, 23398],
        [24418, 32780, 19978, 23398],
        [20262, 29702, 23398],
        [23447, 25945],
        [20315, 25945],
        [22522, 30563, 25945],
        [36947, 25945],
        [24515, 28789]]),
     ([67],
       [[31038, 20250, 31185, 23398],
        [31038, 20250, 23398],
        [35843, 26597, 30740, 31350, 26041, 27861],
        [32479, 35745, 24180, 37492],
        [31038, 20250, 38382, 39064],
        [20844, 20849, 31649, 29702]]),
     ([68],
       [[25919, 27835],
        [22269, 38469, 20851, 31995],
        [22806, 20132],
        [27861, 23398],
        [21009, 27861],
        [27665, 27861],
        [34892, 25919, 27861],
        [23466, 27861]]),
     ([69],
       [[20891, 20107],
        [25112, 20105],
        [25112, 30053],
        [25112, 26415],
        [22269, 38450]]),
     ([70],
       [[32463, 27982],
        [37329, 34701],
        [31649, 29702, 23398],
        [20250, 35745],
        [24066, 22330, 33829, 38144],
        [20225, 19994, 25112, 30053],
        [36152, 26131],
        [23439, 35266, 32463, 27982]]),
     ([71],
       [[25945, 32946, 23398],
        [31185, 26222, 35835, 29289],
        [22270, 20070, 39302, 23398],
        [25991, 21270, 30740, 31350],
        [20307, 32946],
        [21338, 29289, 39302]]),
     ([72],
       [[35821, 35328, 23398],
        [35821, 27861],
        [27721, 35821],
        [33521, 35821],
        [32763, 35793],
        [35789, 20856],
        [35821, 26009, 24211]]),
     ([73],
       [[25991, 23398],
        [23567, 35828],
        [35799, 27468],
        [25955, 25991],
        [25103, 21095],
        [25991, 23398, 21490],
        [25991, 35770],
        [21517, 33879]]),
     ([74],
       [[33402, 26415],
        [32472, 30011],
        [38613, 22609],
        [25668, 24433],
        [38899, 20048],
        [30005, 24433],
        [25103, 26354],
        [35774, 35745]]),
     ([75],
       [[21382, 21490],
        [36890, 21490],
        [20013, 22269, 21490],
        [19990, 30028, 21490],
        [22320, 29702],
        [32771, 21476],
        [25991, 26126, 21490]]),
     ([78],
       [[33258, 28982, 31185, 23398],
        [31185, 30740, 26041, 27861],
        [31185, 23398, 24605, 24819, 21490]]),
     ([79],
       [[25968, 23398],
        [29289, 29702],
        [21270, 23398],
        [25299, 25169],
        [37327, 23376],
        [20195, 25968],
        [24494, 31215, 20998]]),
     ([80],
       [[22825, 25991, 23398],
        [22320, 36136],
        [22320, 29702, 20449, 24687],
        [27668, 35937],
        [22320, 38663],
        [22320, 22270, 23398]]),
     ([81],
       [[29983, 29289],
        [36951, 20256],
        [32454, 32990],
        [29983, 24577],
        [31070, 32463, 31185, 23398],
        [29983, 29289, 21270, 23398]]),
     ([82],
       [[21307, 23398],
        [20020, 24202],
        [35299, 21078],
        [33647, 23398],
        [25252, 29702],
        [20844, 20849, 21355, 29983],
        [30142, 30149]]),
     ([83],
       [[20892, 19994],
        [20316, 29289],
        [30044, 29287],
        [26519, 19994],
        [28180, 19994],
        [22303, 22756]]),
     ([84],
       [[35745, 31639, 26426],
        [31639, 27861],
        [36719, 20214, 24037, 31243],
        [20154, 24037, 26234, 33021],
        [28145, 24230, 23398, 20064],
        [32593, 32476],
        [30005, 23376],
        [26426, 26800],
        [26448, 26009],
        [24037, 19994],
        [33258, 21160, 21270]]),
     ([85],
       [[20132, 36890],
        [38081, 36335],
        [20844, 36335],
        [33322, 36816],
        [28207, 21475],
        [36710, 36742, 24037, 31243]]),
     ([86],
       [[33322, 31354],
        [33322, 22825],
        [33322, 22825, 22120],
        [28779, 31661],
        [21355, 26143]]),
     ([88],
       [[29615, 22659],
        [29983, 24577, 20445, 25252],
        [27745, 26579],
        [23433, 20840, 24037, 31243],
        [32844, 19994, 23433, 20840],
        [24212, 24613]]),
     ([90],
       [[30334, 31185, 20840, 20070],
        [24180, 37492],
        [35770, 25991, 38598],
        [32508, 21512],
        [24037, 20855, 20070]])]"

definition letter_i :: "cp \<Rightarrow> bool" where
  \<comment> \<open>\<^verbatim>\<open>[A-Z]\<close> under \<^verbatim>\<open>re.I\<close>: the 52 ASCII letters and U+0130, U+0131, U+017F, U+212A\<close>
  "letter_i c \<longleftrightarrow> is_upper_az c \<or> is_lower_az c \<or> c = 304 \<or> c = 305 \<or> c = 383 \<or> c = 8490"

definition alnum_i :: "cp \<Rightarrow> bool" where
  \<comment> \<open>\<^verbatim>\<open>[A-Z0-9]\<close> under \<^verbatim>\<open>re.I\<close>\<close>
  "alnum_i c \<longleftrightarrow> letter_i c \<or> is_digit c"

definition CIP_CLC_RE :: rx where
  \<comment> \<open>\<^verbatim>\<open>\b([A-Z])([A-Z0-9]{0,2})(?:\.\d+)?\<close> with \<^verbatim>\<open>re.I\<close>\<close>
  "CIP_CLC_RE =
     Seq WordB (Seq (Grp 1 (Cls letter_i)) (Seq (Grp 2 (Rep True 0 (Some 2) alnum_i))
       (Alt (Seq (Lit (asc ''.'')) (Rep True 1 None is_digit)) Eps)))"

definition ws_plus :: rx where
  \<comment> \<open>\<^verbatim>\<open>\s+\<close>\<close>
  "ws_plus = Rep True 1 None is_space"

definition normalize_s :: "ustr option \<Rightarrow> ustr" where
  \<comment> \<open>\<^verbatim>\<open>_normalize\<close>: the four brackets U+300A, U+300B, U+3010, U+3011 become spaces\<close>
  "normalize_s v =
     re_sub ws_plus (asc '' '')
       (replace_char 12305 (asc '' '') (replace_char 12304 (asc '' '')
         (replace_char 12299 (asc '' '') (replace_char 12298 (asc '' '') (strip (or_empty v))))))"

definition base_weight :: "ustr \<Rightarrow> rat" where
  \<comment> \<open>\<^verbatim>\<open>1.2 if code in ("T", "O", "Q", "R", "P", "S", "X") else 1.0\<close>\<close>
  "base_weight code =
     (if code \<in> set [asc ''T'', asc ''O'', asc ''Q'', asc ''R'', asc ''P'', asc ''S'', asc ''X'']
      then 6 / 5 else 1)"

fun add_score :: "ustr \<Rightarrow> rat \<Rightarrow> scores \<Rightarrow> py_error + scores" where
  \<comment> \<open>\<^verbatim>\<open>scores[code] += base\<close>: a missing key raises\<close>
  "add_score code v [] = Inl KeyError"
| "add_score code v ((k, x) # rest) =
     (if k = code then Inr ((k, x + v) # rest)
      else (case add_score code v rest of Inl e \<Rightarrow> Inl e | Inr rest' \<Rightarrow> Inr ((k, x) # rest')))"

fun score_kws :: "ustr \<Rightarrow> ustr \<Rightarrow> ustr list \<Rightarrow> scores \<Rightarrow> py_error + scores" where
  "score_kws text_lc code [] sc = Inr sc"
| "score_kws text_lc code (kw # kws) sc =
     (if kw \<noteq> [] \<and> contains (lower kw) text_lc
      then (case add_score code (base_weight code) sc of
              Inl e \<Rightarrow> Inl e
            | Inr sc' \<Rightarrow> score_kws text_lc code kws sc')
      else score_kws text_lc code kws sc)"

fun score_table :: "ustr \<Rightarrow> (ustr \<times> ustr list) list \<Rightarrow> scores \<Rightarrow> py_error + scores" where
  "score_table text_lc [] sc = Inr sc"
| "score_table text_lc ((code, kws) # rest) sc =
     (case score_kws text_lc code kws sc of
        Inl e \<Rightarrow> Inl e
      | Inr sc' \<Rightarrow> score_table text_lc rest sc')"

definition score_by_keywords :: "ustr \<Rightarrow> py_error + scores" where
  "score_by_keywords text = score_table (lower text) KEYWORDS (map (\<lambda>(k, v). (k, 0)) CLC_LABELS)"

fun max_first :: "scores \<Rightarrow> ustr \<times> rat \<Rightarrow> ustr \<times> rat" where
  \<comment> \<open>\<^verbatim>\<open>max(scores, key=...)\<close>: a later key wins only with a strictly larger score\<close>
  "max_first [] best = best"
| "max_first ((k, v) # rest) (bk, bv) = max_first rest (if bv < v then (k, v) else (bk, bv))"

definition pick_best :: "scores \<Rightarrow> ustr \<times> rat" where
  "pick_best sc = (case sc of [] \<Rightarrow> (asc ''Z'', 0) | kv # rest \<Rightarrow> max_first rest kv)"

definition label :: "ustr \<Rightarrow> ustr" where
  \<comment> \<open>the fallback is the literal U+672A U+77E5 (unknown)\<close>
  "label code = (case map_of CLC_LABELS (upper code) of Some l \<Rightarrow> l | None \<Rightarrow> [26410, 30693])"

definition from_cip :: "ustr option \<Rightarrow> ustr option" where
  "from_cip cip =
     (if \<not> truthy cip then None
      else (case search CIP_CLC_RE (upper (or_empty cip)) of
              None \<Rightarrow> None
            | Some m \<Rightarrow> Some (group0 (upper (or_empty cip)) m)))"

definition classify_rule_based :: "ustr \<Rightarrow> ustr list option \<Rightarrow> ustr option \<Rightarrow> py_error + clc_result" where
  "classify_rule_based title authors summary =
     (let t = normalize_s (Some title);
          a = normalize_s (Some (join (asc '','') (case authors of None \<Rightarrow> [] | Some xs \<Rightarrow> xs)));
          s = normalize_s (Some (or_empty summary));
          blob = strip (join (asc '' '') [t, a, s])
      in if blob = [] then Inr (asc ''Z'', label (asc ''Z''), 0, asc ''rule'')
         else (case score_by_keywords blob of
                 Inl e \<Rightarrow> Inl e
               | Inr sc \<Rightarrow>
                   (case pick_best sc of (code, score) \<Rightarrow>
                      Inr (code, label code,
                           (if score \<le> 0 then (if code = asc ''Z'' then 1 / 2 else 11 / 20)
                            else if score < 2 then 13 / 20
                            else if score < 4 then 4 / 5
                            else 23 / 25),
                           asc ''rule''))))"

type_synonym llm = "ustr \<Rightarrow> ustr list option \<Rightarrow> ustr option \<Rightarrow> clc_result option"

definition classify_clc :: "llm \<Rightarrow> ustr \<Rightarrow> ustr list option \<Rightarrow> ustr option \<Rightarrow> ustr option \<Rightarrow> py_error + clc_result" where
  \<comment> \<open>\<open>classify_llm\<close> calls an external service; its outcome is the parameter \<open>llm\<close>
      (\<open>None\<close> when it is switched off, unconfigured, or fails)\<close>
  "classify_clc classify_llm title authors summary cip =
     (case from_cip cip of
        Some code \<Rightarrow>
          (if code \<noteq> [] then Inr (code, label (slice code 0 1), 19 / 20, asc ''cip'')
           else (case classify_llm title authors summary of
                   Some r \<Rightarrow> Inr r
                 | None \<Rightarrow> classify_rule_based title authors summary))
      | None \<Rightarrow>
          (case classify_llm title authors summary of
             Some r \<Rightarrow> Inr r
           | None \<Rightarrow> classify_rule_based title authors summary))"

section \<open>Title and author splitting (\<^verbatim>\<open>app/utils.py\<close>, \<^verbatim>\<open>app/nlp.py\<close>)\<close>

definition normalize_whitespace :: "ustr \<Rightarrow> ustr" where
  \<comment> \<open>\<^verbatim>\<open>re.sub(r'\s+', ' ', s or '').strip()\<close>\<close>
  "normalize_whitespace s = strip (re_sub ws_plus (asc '' '') s)"

definition ISBN_RE :: rx where
  \<comment> \<open>\<^verbatim>\<open>(97[89]\d{10}|\d{9}[0-9Xx])\<close>\<close>
  "ISBN_RE =
     Grp 1 (Alt (Seq (Lit (asc ''97'')) (Seq (Cls (\<lambda>c. c = 56 \<or> c = 57)) (Rep True 10 (Some 10) is_digit)))
                (Seq (Rep True 9 (Some 9) is_digit) (Cls (\<lambda>c. is_digit c \<or> c = 88 \<or> c = 120))))"

definition find_isbn :: "ustr \<Rightarrow> ustr option" where
  "find_isbn text =
     (if text = [] then None
      else (let t = re_sub (Cls (\<lambda>c. c = 45 \<or> is_space c)) [] text
            in (case search ISBN_RE t of None \<Rightarrow> None | Some m \<Rightarrow> Some (group t m 1))))"

definition dot :: "cp \<Rightarrow> bool" where
  \<comment> \<open>\<^verbatim>\<open>.\<close> without \<^verbatim>\<open>re.S\<close>: anything but a newline\<close>
  "dot c \<longleftrightarrow> c \<noteq> 10"

definition BRACKETS :: rx where
  \<comment> \<open>an opening bracket of U+3010, \<^verbatim>\<open>[\<close>, \<^verbatim>\<open>(\<close>, U+FF08, then \<^verbatim>\<open>.*?\<close>,
      then a closing bracket of U+3011, \<^verbatim>\<open>]\<close>, \<^verbatim>\<open>)\<close>, U+FF09\<close>
  "BRACKETS =
     Seq (Cls (\<lambda>c. c \<in> set [12304, 91, 40, 65288]))
       (Seq (Rep False 0 None dot) (Cls (\<lambda>c. c \<in> set [12305, 93, 41, 65289])))"

definition ORDINAL_RE :: rx where
  \<comment> \<open>\<^verbatim>\<open>^\s*\d+[...]\s*\<close> with the class \<^verbatim>\<open>.\<close>, U+3001, \<^verbatim>\<open>)\<close>, \<^verbatim>\<open>-\<close>, U+FF1A, \<^verbatim>\<open>:\<close>\<close>
  "ORDINAL_RE =
     Seq Bol (Seq (Rep True 0 None is_space) (Seq (Rep True 1 None is_digit)
       (Seq (Cls (\<lambda>c. c \<in> set [46, 12289, 41, 45, 65306, 58])) (Rep True 0 None is_space))))"

definition ORDINAL_DOT_RE :: rx where
  \<comment> \<open>\<^verbatim>\<open>^\s*\d+\s*\.\s*\<close>\<close>
  "ORDINAL_DOT_RE =
     Seq Bol (Seq (Rep True 0 None is_space) (Seq (Rep True 1 None is_digit)
       (Seq (Rep True 0 None is_space) (Seq (Lit (asc ''.'')) (Rep True 0 None is_space)))))"

definition clean_line :: "ustr \<Rightarrow> ustr" where
  \<comment> \<open>the five replaced characters are \<^verbatim>\<open>+\<close>, \<^verbatim>\<open>/\<close>, U+3001, U+3000 and the tab\<close>
  "clean_line s0 =
     (let s1 = re_sub BRACKETS [] s0;
          s2 = re_sub ORDINAL_RE [] s1;
          s3 = re_sub ORDINAL_DOT_RE [] s2;
          s4 = replace_char 12289 (asc '' '') (replace_char 47 (asc '' '') (replace_char 43 (asc '' '') s3));
          s5 = replace_char 9 (asc '' '') (replace_char 12288 (asc '' '') s4)
      in strip (re_sub (Rep True 2 None is_space) (asc '' '') s5))"

definition role_suffixes :: "ustr list" where
  \<comment> \<open>\<^verbatim>\<open>("\u8457", "\u7f16", "\u8bd1", "\u4e3b\u7f16")\<close>: author, editor, translator, chief editor\<close>
  "role_suffixes = [[33879], [32534], [35793], [20027, 32534]]"

fun dedup_loop :: "ustr list \<Rightarrow> ustr list \<Rightarrow> ustr list \<Rightarrow> ustr list" where
  \<comment> \<open>the loop of \<^verbatim>\<open>_dedup_authors\<close> over \<open>authors\<close>, with its \<open>out\<close> and \<open>seen\<close>\<close>
  "dedup_loop [] out seen = out"
| "dedup_loop (a0 # rest) out seen =
     (let a1 = normalize_whitespace a0
      in if a1 = [] then dedup_loop rest out seen
         else (let a2 = (if \<exists>suf \<in> set role_suffixes. endswith a1 suf then butlast a1 else a1)
               in if a2 \<notin> set seen then dedup_loop rest (out @ [a2]) (a2 # seen)
                  else dedup_loop rest out seen))"

definition dedup_authors :: "ustr list \<Rightarrow> ustr list" where
  "dedup_authors authors = dedup_loop authors [] []"

definition HINT_RE :: rx where
  \<comment> \<open>\<^verbatim>\<open>^(.*?)[\s:\uff1a\-\u2014\xb7]+([^\d]{1,30})(\u8457|\u7f16|\u8bd1|\u4e3b\u7f16|\u7b49)$\<close>\<close>
  "HINT_RE =
     Seq Bol (Seq (Grp 1 (Rep False 0 None dot))
       (Seq (Rep True 1 None (\<lambda>c. is_space c \<or> c \<in> set [58, 65306, 45, 8212, 183]))
         (Seq (Grp 2 (Rep True 1 (Some 30) (\<lambda>c. \<not> is_digit c)))
           (Seq (Grp 3 (Alt (Lit [33879]) (Alt (Lit [32534]) (Alt (Lit [35793])
                   (Alt (Lit [20027, 32534]) (Lit [31561]))))))
             Eol))))"

definition PAREN_RE :: rx where
  \<comment> \<open>\<^verbatim>\<open>^(.*?)[\s\(\uff08](.*?)[\)\uff09]$\<close>\<close>
  "PAREN_RE =
     Seq Bol (Seq (Grp 1 (Rep False 0 None dot))
       (Seq (Cls (\<lambda>c. is_space c \<or> c = 40 \<or> c = 65288))
         (Seq (Grp 2 (Rep False 0 None dot))
           (Seq (Cls (\<lambda>c. c = 41 \<or> c = 65289)) Eol))))"

definition heuristic_title_author :: "ustr \<Rightarrow> ustr \<times> ustr list" where
  "heuristic_title_author s0 =
     (let s = clean_line s0
      in (case search HINT_RE s of
            Some m \<Rightarrow>
              (strip_chars [32, 45, 8212, 183, 58, 65306] (group s m 1),
               dedup_authors [strip (group s m 2)])
          | None \<Rightarrow>
              (case (case search PAREN_RE s of
                       Some m \<Rightarrow> if length (group s m 2) \<le> 12 then Some m else None
                     | None \<Rightarrow> None) of
                 Some m \<Rightarrow> (group s m 1, dedup_authors [group s m 2])
               | None \<Rightarrow>
                   (let parts = split_ws s
                    in if length parts \<ge> 2 \<and> length (last parts) \<le> 12
                       then (join (asc '' '') (butlast parts), dedup_authors [last parts])
                       else (s, [])))))"

record ner_result =
  ner_title :: "ustr option"
  ner_authors :: "ustr list"
  ner_confidence :: rat

definition ner_nothing :: ner_result where
  \<comment> \<open>\<^verbatim>\<open>{"title": None, "authors": [], "confidence": 0.0}\<close>\<close>
  "ner_nothing = \<lparr>ner_title = None, ner_authors = [], ner_confidence = 0\<rparr>"

type_synonym ner_backend = "(ustr \<Rightarrow> ner_result) option"

definition extract_title_author_via_ner :: "ner_backend \<Rightarrow> ustr \<Rightarrow> ner_result" where
  \<comment> \<open>the backend loaded by \<^verbatim>\<open>_try_load_ner\<close> is the parameter: \<open>None\<close> when none is installed\<close>
  "extract_title_author_via_ner backend s =
     (let text = clean_line s
      in if text = [] then ner_nothing
         else (case backend of None \<Rightarrow> ner_nothing | Some run \<Rightarrow> run text))"

definition SUFFIX_END_RE :: rx where
  \<comment> \<open>\<^verbatim>\<open>(\u8457|\u7f16|\u8bd1|\u4e3b\u7f16)$\<close>\<close>
  "SUFFIX_END_RE =
     Seq (Grp 1 (Alt (Lit [33879]) (Alt (Lit [32534]) (Alt (Lit [35793]) (Lit [20027, 32534]))))) Eol"

definition title_tokens :: "ustr list" where
  \<comment> \<open>the fourteen two-character tokens of \<^verbatim>\<open>_title_score\<close>, in the order of the pattern\<close>
  "title_tokens =
     [[30740, 31350], [31616, 21490], [25945, 31243], [23548, 35770], [21407, 29702],
      [26041, 27861], [25991, 26126], [19990, 30028], [31038, 20250], [21382, 21490],
      [31639, 27861], [21407, 26412], [25991, 23398], [25991, 21270]]"

definition title_score :: "ustr \<Rightarrow> int" where
  \<comment> \<open>a search for an alternation of literals succeeds exactly when one of them occurs\<close>
  "title_score t0 =
     (let t = strip t0
      in int (length t)
         - (if search SUFFIX_END_RE t \<noteq> None then 2 else 0)
         + (if \<exists>w \<in> set title_tokens. contains w t then 2 else 0))"

fun max_by_first :: "(ustr \<Rightarrow> int) \<Rightarrow> ustr list \<Rightarrow> ustr \<Rightarrow> ustr" where
  \<comment> \<open>\<^verbatim>\<open>max(candidates, key=f)\<close>: the first of the largest\<close>
  "max_by_first f [] best = best"
| "max_by_first f (x # xs) best = max_by_first f xs (if f best < f x then x else best)"

definition title_strip_chars :: ustr where
  \<comment> \<open>space, U+300A, U+300B, \<^verbatim>\<open>[\<close>, \<^verbatim>\<open>]\<close>, U+FF08, U+FF09, \<^verbatim>\<open>(\<close>, \<^verbatim>\<open>)\<close>\<close>
  "title_strip_chars = [32, 12298, 12299, 91, 93, 65288, 65289, 40, 41]"

definition split_title_author :: "ner_backend \<Rightarrow> ustr \<Rightarrow> ustr \<times> ustr list" where
  "split_title_author backend s0 =
     (let s = normalize_whitespace s0
      in if s = [] then ([], [])
         else
           (let cleaned = clean_line s;
                ner = extract_title_author_via_ner backend cleaned;
                n_title = strip_chars title_strip_chars (or_empty (ner_title ner));
                n_authors = dedup_authors (ner_authors ner);
                n_conf = ner_confidence ner;
                rule = heuristic_title_author cleaned;
                rule_title = strip_chars title_strip_chars (fst rule);
                rule_authors = dedup_authors (snd rule)
            in if n_authors \<noteq> [] \<and> n_conf \<ge> 3 / 5
               then (let title =
                           (case filter (\<lambda>t. t \<noteq> []) [n_title, rule_title] of
                              [] \<Rightarrow> (if rule_title \<noteq> [] then rule_title else n_title)
                            | c # cs \<Rightarrow> max_by_first title_score cs c)
                     in (if title \<noteq> [] then title else cleaned, n_authors))
               else (rule_title, rule_authors)))"

section \<open>The store and the providers (\<^verbatim>\<open>app/db.py\<close>, \<^verbatim>\<open>app/providers/base.py\<close>)\<close>

text \<open>
  A table is the list of its rows in insertion order. The two timestamp columns are
  left out (they read the clock and no operation below reads them). The field
  \<open>d_url\<close> of a detail is the attribute \<^verbatim>\<open>url\<close> that a provider may set on the record
  (\<^verbatim>\<open>setattr(d, "url", url)\<close>), \<open>None\<close> when it did not; the provenance entry stores
  \<^verbatim>\<open>getattr(detail, "url", "")\<close>. A provider is the set of methods it has
  (\<^verbatim>\<open>hasattr\<close>), each a function that returns or raises.
\<close>

record book_detail =
  d_title :: "ustr option"
  d_authors :: "ustr list option"
  d_publisher :: "ustr option"
  d_pub_year :: "int option"
  d_isbn :: "ustr option"
  d_edition :: "ustr option"
  d_pages :: "int option"
  d_summary :: "ustr option"
  d_author_bio :: "ustr option"
  d_language :: "ustr option"
  d_cover_url :: "ustr option"
  d_cip :: "ustr option"
  d_url :: "ustr option"

record search_result =
  r_title :: ustr
  r_authors :: "ustr list"
  r_url :: "ustr option"
  r_isbn :: "ustr option"

record book =
  book_id :: nat
  title_std :: ustr
  authors_std :: "ustr option"
  publisher :: "ustr option"
  pub_year :: "int option"
  isbn :: "ustr option"
  edition :: "ustr option"
  pages :: "int option"
  summary :: "ustr option"
  author_bio :: "ustr option"
  language :: "ustr option"
  cover_path :: "ustr option"
  cip :: "ustr option"
  clc :: "ustr option"

record source =
  src_book_id :: nat
  site :: ustr
  url :: ustr
  extracted :: book_detail

record db =
  books :: "book list"
  sources :: "source list"

record provider =
  p_site :: ustr
  p_get_by_isbn :: "(ustr \<Rightarrow> py_error + book_detail option) option"
  p_search :: "(ustr \<Rightarrow> py_error + search_result list) option"
  p_get_detail :: "(ustr \<Rightarrow> py_error + book_detail option) option"

text \<open>
  What lies outside the repository is a parameter: the entity-extraction backend, the
  external classifier, the cover download, and the store refusing a flush or a commit
  (a uniqueness violation raised by a concurrent writer, a locked file).
\<close>

record world =
  ner :: ner_backend
  classify_llm :: llm
  fetch_cover :: "ustr option \<Rightarrow> ustr"
  flush_fault :: "book \<Rightarrow> py_error option"
  commit_fault :: "db \<Rightarrow> py_error option"

definition int_truthy :: "int option \<Rightarrow> bool" where
  "int_truthy v \<longleftrightarrow> (case v of None \<Rightarrow> False | Some n \<Rightarrow> n \<noteq> 0)"

fun first_index :: "('a \<Rightarrow> bool) \<Rightarrow> 'a list \<Rightarrow> nat option" where
  "first_index P [] = None"
| "first_index P (x # xs) = (if P x then Some 0 else map_option Suc (first_index P xs))"

definition new_id :: "book list \<Rightarrow> nat" where
  \<comment> \<open>SQLite's integer primary key: one more than the largest in the table\<close>
  "new_id bs = Suc (fold max (map book_id bs) 0)"

definition default_language :: ustr where
  \<comment> \<open>the column default, U+4E2D U+6587\<close>
  "default_language = [20013, 25991]"

definition insert_book :: "world \<Rightarrow> book \<Rightarrow> db \<Rightarrow> py_error + (nat \<times> db)" where
  \<comment> \<open>\<^verbatim>\<open>session.add(b); session.flush()\<close>: the new row's position and the table with it;
      a language of \<^verbatim>\<open>None\<close> takes the column default\<close>
  "insert_book w b d =
     (case flush_fault w b of
        Some e \<Rightarrow> Inl e
      | None \<Rightarrow>
          Inr (length (books d),
               d\<lparr>books := books d @
                    [b\<lparr>book_id := new_id (books d),
                       language := (case language b of None \<Rightarrow> Some default_language | Some l \<Rightarrow> Some l)\<rparr>]\<rparr>))"

section \<open>The pipeline (\<^verbatim>\<open>app/pipeline.py\<close>)\<close>

definition apply_detail :: "book_detail \<Rightarrow> book \<Rightarrow> book" where
  \<comment> \<open>the ten guarded assignments of the ISBN branch\<close>
  "apply_detail d b =
     b\<lparr>title_std := (if strip (or_empty (d_title d)) \<noteq> [] then strip (or_empty (d_title d)) else title_std b),
       authors_std := (case d_authors d of
                         Some (a # as) \<Rightarrow> Some (join (asc '','') (a # as))
                       | _ \<Rightarrow> authors_std b),
       publisher := (if truthy (d_publisher d) then d_publisher d else publisher b),
       pub_year := (if int_truthy (d_pub_year d) then d_pub_year d else pub_year b),
       edition := (if truthy (d_edition d) then d_edition d else edition b),
       pages := (if int_truthy (d_pages d) then d_pages d else pages b),
       summary := (if strip (or_empty (d_summary d)) \<noteq> [] then Some (strip (or_empty (d_summary d))) else summary b),
       author_bio := (if strip (or_empty (d_author_bio d)) \<noteq> [] then Some (strip (or_empty (d_author_bio d))) else author_bio b),
       language := (if truthy (d_language d) then d_language d else language b),
       cip := (if truthy (d_cip d) then d_cip d else cip b)\<rparr>"

definition isbn_key :: "book_detail \<Rightarrow> ustr option" where
  \<comment> \<open>\<^verbatim>\<open>(d.isbn or "").strip() or None\<close>\<close>
  "isbn_key d = or_none (strip (or_empty (d_isbn d)))"

definition authors_joined :: "book_detail \<Rightarrow> ustr" where
  \<comment> \<open>\<^verbatim>\<open>",".join(d.authors or [])\<close>\<close>
  "authors_joined d = join (asc '','') (case d_authors d of None \<Rightarrow> [] | Some xs \<Rightarrow> xs)"

definition get_or_create_book_by_detail :: "world \<Rightarrow> book_detail \<Rightarrow> db \<Rightarrow> py_error + (nat \<times> db)" where
  \<comment> \<open>the result names the row of the returned \<^verbatim>\<open>Book\<close> object by its position\<close>
  "get_or_create_book_by_detail w d st =
     (case isbn_key d of
        Some key \<Rightarrow>
          (case (case first_index (\<lambda>b. isbn b = Some key) (books st) of
                   Some i \<Rightarrow> Inr (i, st)
                 | None \<Rightarrow>
                     insert_book w
                       \<lparr>book_id = 0, title_std = or_empty (d_title d), authors_std = Some (authors_joined d),
                        publisher = None, pub_year = None, isbn = Some key, edition = None, pages = None,
                        summary = None, author_bio = None, language = None, cover_path = None,
                        cip = None, clc = None\<rparr> st) of
             Inl e \<Rightarrow> Inl e
           | Inr (i, st1) \<Rightarrow> Inr (i, st1\<lparr>books := (books st1)[i := apply_detail d (books st1 ! i)]\<rparr>))
      | None \<Rightarrow>
          insert_book w
            \<lparr>book_id = 0, title_std = or_empty (d_title d), authors_std = Some (authors_joined d),
             publisher = d_publisher d, pub_year = d_pub_year d, isbn = None, edition = d_edition d,
             pages = d_pages d, summary = or_none (strip (or_empty (d_summary d))),
             author_bio = or_none (strip (or_empty (d_author_bio d))), language = d_language d,
             cover_path = None, cip = d_cip d, clc = None\<rparr> st)"

definition set_cover :: "ustr \<Rightarrow> book \<Rightarrow> book" where
  \<comment> \<open>\<^verbatim>\<open>if rel_cover and not book.cover_path: book.cover_path = rel_cover\<close>\<close>
  "set_cover rel_cover b =
     (if rel_cover \<noteq> [] \<and> \<not> truthy (cover_path b) then b\<lparr>cover_path := Some rel_cover\<rparr> else b)"

definition set_clc :: "world \<Rightarrow> book \<Rightarrow> py_error + book" where
  \<comment> \<open>the automatic classification of a book without a code\<close>
  "set_clc w b =
     (if truthy (clc b) then Inr b
      else (case classify_clc (classify_llm w) (title_std b)
                   (Some (if truthy (authors_std b) then split_on 44 (or_empty (authors_std b)) else []))
                   (Some (or_empty (summary b))) (cip b) of
              Inl e \<Rightarrow> Inl e
            | Inr (code, lbl, conf, src) \<Rightarrow>
                Inr (if code \<noteq> [] \<and> strip code \<noteq> [] then b\<lparr>clc := Some (strip code)\<rparr> else b)))"

definition ingest_body :: "world \<Rightarrow> provider \<Rightarrow> book_detail \<Rightarrow> db \<Rightarrow> py_error + (nat \<times> db)" where
  \<comment> \<open>the block under \<^verbatim>\<open>with session.begin()\<close>, on the working state of the transaction;
      the value is \<^verbatim>\<open>book.id\<close>\<close>
  "ingest_body w p d st =
     (case get_or_create_book_by_detail w d st of
        Inl e \<Rightarrow> Inl e
      | Inr (i, st1) \<Rightarrow>
          (case set_clc w (set_cover (fetch_cover w (d_cover_url d)) (books st1 ! i)) of
             Inl e \<Rightarrow> Inl e
           | Inr b \<Rightarrow>
               Inr (book_id b,
                    st1\<lparr>books := (books st1)[i := b],
                        sources := sources st1 @
                          [\<lparr>src_book_id = book_id b, site = p_site p, url = or_empty (d_url d),
                            extracted = d\<rparr>]\<rparr>)))"

definition with_begin :: "world \<Rightarrow> (db \<Rightarrow> py_error + ('a \<times> db)) \<Rightarrow> db \<Rightarrow> (py_error + 'a) \<times> db" where
  \<comment> \<open>\<^verbatim>\<open>with session.begin(): body\<close>: commit when the body ends, roll back when it or the
      commit raises\<close>
  "with_begin w body st =
     (case body st of
        Inl e \<Rightarrow> (Inl e, st)
      | Inr (r, st') \<Rightarrow>
          (case commit_fault w st' of
             Some e \<Rightarrow> (Inl e, st)
           | None \<Rightarrow> (Inr r, st')))"

definition first_result_detail :: "provider \<Rightarrow> search_result \<Rightarrow> py_error + book_detail option" where
  "first_result_detail p r =
     (case (p_get_detail p, truthy (r_url r)) of
        (Some gd, True) \<Rightarrow> gd (or_empty (r_url r))
      | _ \<Rightarrow>
          (case (p_get_by_isbn p, truthy (r_isbn r)) of
             (Some gi, True) \<Rightarrow> gi (or_empty (r_isbn r))
           | _ \<Rightarrow> Inr None))"

fun search_loop :: "provider \<Rightarrow> (ustr \<Rightarrow> py_error + search_result list) \<Rightarrow> ustr list \<Rightarrow> py_error + book_detail option" where
  "search_loop p f [] = Inr None"
| "search_loop p f (q # qs) =
     (case f q of
        Inl e \<Rightarrow> Inl e
      | Inr res \<Rightarrow>
          (case (case res of [] \<Rightarrow> Inr None | r # rs \<Rightarrow> first_result_detail p r) of
             Inl e \<Rightarrow> Inl e
           | Inr (Some d) \<Rightarrow> Inr (Some d)
           | Inr None \<Rightarrow> search_loop p f qs))"

definition probe :: "provider \<Rightarrow> ustr option \<Rightarrow> ustr list \<Rightarrow> py_error + book_detail option" where
  \<comment> \<open>the \<^verbatim>\<open>try\<close> block of one provider: the value of \<^verbatim>\<open>detail\<close> after it, or the exception
      that the handler catches (\<^verbatim>\<open>detail\<close> is still \<^verbatim>\<open>None\<close> then)\<close>
  "probe p isbn_input cands =
     (case (case (truthy isbn_input, p_get_by_isbn p) of
              (True, Some gi) \<Rightarrow> gi (or_empty isbn_input)
            | _ \<Rightarrow> Inr None) of
        Inl e \<Rightarrow> Inl e
      | Inr (Some d) \<Rightarrow> Inr (Some d)
      | Inr None \<Rightarrow>
          (case p_search p of
             None \<Rightarrow> Inr None
           | Some f \<Rightarrow> search_loop p f cands))"

definition isbn_norm :: "ustr \<Rightarrow> ustr" where
  \<comment> \<open>\<^verbatim>\<open>x.replace("-", "").upper()\<close>\<close>
  "isbn_norm x = upper (filter (\<lambda>c. c \<noteq> 45) x)"

definition isbn_mismatch :: "ustr option \<Rightarrow> book_detail \<Rightarrow> bool" where
  "isbn_mismatch isbn_input d \<longleftrightarrow>
     truthy isbn_input \<and> truthy (d_isbn d) \<and>
     isbn_norm (or_empty (d_isbn d)) \<noteq> isbn_norm (or_empty isbn_input)"

definition backfill :: "ustr option \<Rightarrow> book_detail \<Rightarrow> book_detail" where
  "backfill isbn_input d =
     (if truthy isbn_input \<and> \<not> truthy (d_isbn d) then d\<lparr>d_isbn := isbn_input\<rparr> else d)"

fun ingest_loop :: "world \<Rightarrow> ustr option \<Rightarrow> ustr list \<Rightarrow> provider list \<Rightarrow> bool \<Rightarrow> db \<Rightarrow> (py_error + nat option) \<times> db" where
  \<comment> \<open>the loop over the providers. \<open>begun\<close> says that the session already holds a
      transaction: the query after an \<^verbatim>\<open>IntegrityError\<close> begins one, the
      \<^verbatim>\<open>session.rollback()\<close> of the exception handler ends it, and while it lasts
      \<^verbatim>\<open>session.begin()\<close> raises\<close>
  "ingest_loop w isbn_input cands [] begun st = (Inr None, st)"
| "ingest_loop w isbn_input cands (p # ps) begun st =
     (case probe p isbn_input cands of
        Inl e \<Rightarrow> ingest_loop w isbn_input cands ps False st
      | Inr None \<Rightarrow> ingest_loop w isbn_input cands ps begun st
      | Inr (Some detail) \<Rightarrow>
          if isbn_mismatch isbn_input detail then ingest_loop w isbn_input cands ps begun st
          else if begun then (Inl InvalidRequestError, st)
          else
            (case with_begin w (ingest_body w p (backfill isbn_input detail)) st of
               (Inr bid, st') \<Rightarrow> (Inr (Some bid), st')
             | (Inl IntegrityError, st') \<Rightarrow>
                 (if truthy (d_isbn (backfill isbn_input detail))
                  then (case find (\<lambda>b. isbn b = d_isbn (backfill isbn_input detail)) (books st') of
                          Some existing \<Rightarrow> (Inr (Some (book_id existing)), st')
                        | None \<Rightarrow> ingest_loop w isbn_input cands ps True st')
                  else ingest_loop w isbn_input cands ps False st')
             | (Inl e, st') \<Rightarrow> (Inl e, st')))"

definition search_candidates :: "ustr \<Rightarrow> ustr list \<Rightarrow> ustr \<Rightarrow> ustr list" where
  "search_candidates title authors query =
     (let author1 = strip (case authors of [] \<Rightarrow> [] | a # as \<Rightarrow> a)
      in (if title \<noteq> [] then [title] else [])
         @ (if title \<noteq> [] \<and> author1 \<noteq> [] then [title @ asc '' '' @ author1] else [])
         @ [query])"

definition search_and_ingest :: "world \<Rightarrow> provider list \<Rightarrow> ustr \<Rightarrow> db \<Rightarrow> (py_error + nat option) \<times> db" where
  \<comment> \<open>\<open>providers\<close> is what \<^verbatim>\<open>get_providers()\<close> loaded, in the configured order\<close>
  "search_and_ingest w providers query st =
     (case split_title_author (ner w) query of
        (title, authors) \<Rightarrow>
          ingest_loop w (find_isbn query) (search_candidates title authors query) providers False st)"

section \<open>Concrete inputs\<close>

text \<open>
  The inputs at which the theorems below are instantiated: a world without an
  entity-extraction backend or external classifier, whose cover download fails (or
  yields a fixed path) and whose store never refuses a write, and one whose store
  refuses every commit; a detail record with the ISBN 9787020002207 and its variants
  (another publisher, no ISBN, another ISBN, the same ISBN with hyphens or padded with
  blanks); three providers answering an ISBN lookup.
\<close>

definition no_llm :: llm where
  "no_llm = (\<lambda>t a s. None)"

definition quiet_world :: world where
  "quiet_world = \<lparr>ner = None, classify_llm = no_llm, fetch_cover = (\<lambda>u. []),
                   flush_fault = (\<lambda>b. None), commit_fault = (\<lambda>d. None)\<rparr>"

definition cover_world :: world where
  "cover_world = quiet_world\<lparr>fetch_cover := (\<lambda>u. asc ''covers/new.jpg'')\<rparr>"


definition empty_db :: db where
  "empty_db = \<lparr>books = [], sources = []\<rparr>"

definition detail_A :: book_detail where
  "detail_A =
     \<lparr>d_title = Some (asc ''Dream''), d_authors = Some [asc ''Cao''], d_publisher = Some (asc ''A''),
      d_pub_year = None, d_isbn = Some (asc ''9787020002207''), d_edition = None, d_pages = None,
      d_summary = None, d_author_bio = None, d_language = None, d_cover_url = None, d_cip = None,
      d_url = Some (asc ''https://book.example/subject/1/'')\<rparr>"

definition detail_B :: book_detail where
  "detail_B = detail_A\<lparr>d_publisher := Some (asc ''B'')\<rparr>"

definition detail_blank :: book_detail where
  "detail_blank = detail_A\<lparr>d_publisher := Some []\<rparr>"

definition detail_absent :: book_detail where
  "detail_absent = detail_A\<lparr>d_publisher := None\<rparr>"

definition detail_no_isbn :: book_detail where
  "detail_no_isbn = detail_A\<lparr>d_isbn := None\<rparr>"


definition detail_hyphens :: book_detail where
  "detail_hyphens = detail_A\<lparr>d_isbn := Some (asc ''978-7-02-000220-7'')\<rparr>"

definition detail_padded :: book_detail where
  "detail_padded = detail_A\<lparr>d_isbn := Some (asc '' 9787020002207 '')\<rparr>"

definition book_A :: book where
  "book_A =
     \<lparr>book_id = 1, title_std = asc ''Dream'', authors_std = Some (asc ''Cao''),
      publisher = Some (asc ''A''), pub_year = None, isbn = Some (asc ''9787020002207''),
      edition = None, pages = None, summary = None, author_bio = None,
      language = Some default_language, cover_path = Some (asc ''covers/old.jpg''), cip = None,
      clc = Some (asc ''I'')\<rparr>"

definition db_A :: db where
  "db_A = \<lparr>books = [book_A], sources = []\<rparr>"

definition provider_bare :: provider where
  \<comment> \<open>a provider whose page shows no ISBN\<close>
  "provider_bare =
     \<lparr>p_site = asc ''jd'', p_get_by_isbn = Some (\<lambda>i. Inr (Some detail_no_isbn)),
      p_search = None, p_get_detail = None\<rparr>"


definition provider_right :: provider where
  "provider_right =
     \<lparr>p_site = asc ''jd'', p_get_by_isbn = Some (\<lambda>i. Inr (Some detail_A)),
      p_search = None, p_get_detail = None\<rparr>"

section \<open>The matcher consumes input left to right\<close>

lemma first_some_Some: "first_some f xs = Some r \<Longrightarrow> \<exists>x \<in> set xs. f x = Some r"
  by (induction xs) (auto split: option.splits)

lemma rx_m_advances:
  "rx_m r s k st = Some res \<Longrightarrow> \<exists>st'. k st' = Some res \<and> fst st \<le> fst st'"
proof (induction r arbitrary: k st)
  case (Rep greedy lo hi p)
  obtain i g where st: "st = (i, g)" by (cases st)
  from Rep obtain n where "k (i + n, g) = Some res"
    by (auto simp del: upt_Suc simp: st Let_def dest!: first_some_Some split: if_splits)
  then show ?case by (auto simp: st intro!: exI[of _ "i + n"])
next
  case (Seq a b)
  from Seq.prems have "rx_m a s (rx_m b s k) st = Some res" by simp
  from Seq.IH(1)[OF this] obtain st1 where 1: "rx_m b s k st1 = Some res" "fst st \<le> fst st1" by auto
  from Seq.IH(2)[OF 1(1)] obtain st2 where 2: "k st2 = Some res" "fst st1 \<le> fst st2" by auto
  from 1(2) 2(2) have "fst st \<le> fst st2" by simp
  with 2(1) show ?case by blast
next
  case (Alt a b)
  then show ?case by (auto split: option.splits)
next
  case (Grp n a)
  obtain i g where st: "st = (i, g)" by (cases st)
  from Grp.prems have "rx_m a s (\<lambda>(j, g'). k (j, (n, i, j) # g')) (i, g) = Some res" by (simp add: st)
  from Grp.IH[OF this] obtain st1 where "(\<lambda>(j, g'). k (j, (n, i, j) # g')) st1 = Some res" "i \<le> fst st1" by auto
  then show ?case by (cases st1) (auto simp: st)
qed (auto split: if_splits prod.splits)

lemma search_Some: "search r s = Some (i, j, g) \<Longrightarrow> match_at r s i = Some (j, g)"
  by (auto simp: search_def dest!: first_some_Some)

lemma match_cip_starts_with_letter:
  assumes "match_at CIP_CLC_RE s i = Some (j, g)"
  shows "i < j \<and> i < length s \<and> letter_i (s ! i)"
proof -
  let ?rest = "Seq (Grp 2 (Rep True 0 (Some 2) alnum_i)) (Alt (Seq (Lit (asc ''.'')) (Rep True 1 None is_digit)) Eps)"
  from assms have c: "i < length s" "letter_i (s ! i)"
    and r: "rx_m ?rest s Some (Suc i, [(1, i, Suc i)]) = Some (j, g)"
    by (auto simp: match_at_def CIP_CLC_RE_def split: if_splits)
  from rx_m_advances[OF r] have "Suc i \<le> j" by auto
  with c show ?thesis by simp
qed

lemma from_cip_head:
  assumes "from_cip cn = Some code"
  shows "code \<noteq> [] \<and> letter_i (hd code)"
proof -
  from assms obtain c i j g where c: "cn = Some c"
    and m: "search CIP_CLC_RE (upper c) = Some (i, j, g)"
    and code: "code = slice (upper c) i j"
    by (auto simp: from_cip_def group0_def truthy_def or_empty_def split: if_splits option.splits)
  from match_cip_starts_with_letter[OF search_Some[OF m]]
  have "i < j" "i < length (upper c)" "letter_i (upper c ! i)" by auto
  then show ?thesis
    by (auto simp: code slice_def hd_drop_conv_nth)
qed

section \<open>The classifier\<close>

lemma add_score_ok:
  "code \<in> set (map fst sc) \<Longrightarrow> \<exists>sc'. add_score code v sc = Inr sc' \<and> map fst sc' = map fst sc"
proof (induction sc)
  case Nil
  then show ?case by simp
next
  case (Cons row sc)
  obtain k x where row: "row = (k, x)" by (cases row)
  show ?case
  proof (cases "k = code")
    case True
    then show ?thesis by (simp add: row)
  next
    case False
    with Cons.prems have "code \<in> set (map fst sc)" by (auto simp: row)
    from Cons.IH[OF this] False show ?thesis by (auto simp: row)
  qed
qed

lemma score_kws_ok:
  "code \<in> set (map fst sc) \<Longrightarrow> \<exists>sc'. score_kws t code kws sc = Inr sc' \<and> map fst sc' = map fst sc"
proof (induction kws arbitrary: sc)
  case Nil
  then show ?case by simp
next
  case (Cons kw kws)
  from add_score_ok[OF Cons.prems, of "base_weight code"]
  obtain sc1 where 1: "add_score code (base_weight code) sc = Inr sc1" "map fst sc1 = map fst sc" by blast
  from Cons.prems 1(2) have "code \<in> set (map fst sc1)" by simp
  from Cons.IH[OF this] Cons.IH[OF Cons.prems] 1 show ?case by auto
qed

lemma score_table_ok:
  "fst ` set tbl \<subseteq> set (map fst sc) \<Longrightarrow> \<exists>sc'. score_table t tbl sc = Inr sc' \<and> map fst sc' = map fst sc"
proof (induction tbl arbitrary: sc)
  case Nil
  then show ?case by simp
next
  case (Cons row tbl)
  obtain code kws where row: "row = (code, kws)" by (cases row)
  from Cons.prems have "code \<in> set (map fst sc)" by (auto simp: row)
  from score_kws_ok[OF this, of t kws]
  obtain sc1 where 1: "score_kws t code kws sc = Inr sc1" "map fst sc1 = map fst sc" by blast
  from Cons.prems 1(2) have "fst ` set tbl \<subseteq> set (map fst sc1)" by auto
  from Cons.IH[OF this] 1 show ?case by (auto simp: row)
qed

lemma keyword_codes_have_labels:
  "list_all (\<lambda>k. k \<in> set (map fst CLC_LABELS)) (map fst KEYWORDS)"
  by code_simp

lemma score_by_keywords_ok:
  "\<exists>sc. score_by_keywords t = Inr sc \<and> map fst sc = map fst CLC_LABELS"
proof -
  have same: "map fst (map (\<lambda>(k, v). (k, 0::rat)) CLC_LABELS) = map fst CLC_LABELS"
    by (simp add: case_prod_unfold comp_def)
  have "fst ` set KEYWORDS \<subseteq> set (map fst (map (\<lambda>(k, v). (k, 0::rat)) CLC_LABELS))"
    unfolding same using keyword_codes_have_labels by (auto simp: list_all_iff)
  from score_table_ok[OF this, of "lower t"] show ?thesis
    unfolding score_by_keywords_def same by blast
qed

lemma classify_rule_based_returns: "\<exists>r. classify_rule_based t a s = Inr r"
proof -
  obtain sc where "score_by_keywords (strip (join (asc '' '') [normalize_s (Some t),
      normalize_s (Some (join (asc '','') (case a of None \<Rightarrow> [] | Some xs \<Rightarrow> xs))),
      normalize_s (Some (or_empty s))])) = Inr sc"
    using score_by_keywords_ok by blast
  then show ?thesis
    by (auto simp: classify_rule_based_def Let_def split: prod.splits)
qed

lemma classify_rule_based_empty:
  "a \<in> {None, Some []} \<Longrightarrow> s \<in> {None, Some []} \<Longrightarrow>
   classify_rule_based [] a s = Inr (asc ''Z'', label (asc ''Z''), 0, asc ''rule'')"
proof -
  have "classify_rule_based [] None None = Inr (asc ''Z'', label (asc ''Z''), 0, asc ''rule'')" by code_simp
  moreover have "classify_rule_based [] None (Some []) = Inr (asc ''Z'', label (asc ''Z''), 0, asc ''rule'')" by code_simp
  moreover have "classify_rule_based [] (Some []) None = Inr (asc ''Z'', label (asc ''Z''), 0, asc ''rule'')" by code_simp
  moreover have "classify_rule_based [] (Some []) (Some []) = Inr (asc ''Z'', label (asc ''Z''), 0, asc ''rule'')" by code_simp
  moreover assume "a \<in> {None, Some []}" "s \<in> {None, Some []}"
  ultimately show ?thesis by auto
qed

text \<open>
  What the code does with a catalog number: whenever it is present and the pattern is
  found in its upper-cased text, the result is the text the pattern matched there
  (non-empty, starting with a letter), with the label of its first character,
  confidence 0.95 and source "cip", whatever the title, the authors, the summary and
  the external classifier are.
\<close>

lemma classify_clc_cip_wins:
  assumes "from_cip cn = Some code"
  shows "classify_clc L t a s cn = Inr (code, label (slice code 0 1), 19 / 20, asc ''cip'')
         \<and> code \<noteq> [] \<and> letter_i (hd code)
         \<and> (\<exists>c m. cn = Some c \<and> search CIP_CLC_RE (upper c) = Some m \<and> code = group0 (upper c) m)"
proof -
  from from_cip_head[OF assms] have ne: "code \<noteq> []" "letter_i (hd code)" by auto
  from assms have "\<exists>c m. cn = Some c \<and> search CIP_CLC_RE (upper c) = Some m \<and> code = group0 (upper c) m"
    by (auto simp: from_cip_def truthy_def or_empty_def split: if_splits option.splits)
  with ne assms show ?thesis by (simp add: classify_clc_def)
qed

text \<open>
  C1 (the code at the failing input). For the catalog number "TP391.1", which the
  comments of \<^verbatim>\<open>classify.py\<close> give as what the pattern matches and keeps, the code is
  "TP3", with the label of "T", confidence 0.95 and source "cip". The pattern takes the
  leading letter and at most two more letters or digits, and its optional decimal
  group can only follow these directly: "H315.4" gives "H31"; "B21.1" is kept whole,
  while "B211.1" becomes "B21".
\<close>

theorem classify_clc_cip_truncates:
  "classify_clc no_llm (asc ''X'') (Some []) (Some []) (Some (asc ''TP391.1''))
     = Inr (asc ''TP3'', label (asc ''T''), 19 / 20, asc ''cip'')
   \<and> asc ''TP3'' \<noteq> asc ''TP391.1''
   \<and> from_cip (Some (asc ''H315.4'')) = Some (asc ''H31'')
   \<and> from_cip (Some (asc ''B21.1'')) = Some (asc ''B21.1'')
   \<and> from_cip (Some (asc ''B211.1'')) = Some (asc ''B21'')"
  by code_simp

text \<open>
  What the rule-based fallback does without a keyword hit on a non-empty text: the
  first category of the table, "A", at confidence 0.55.
\<close>

lemma classify_rule_based_no_hit:
  "classify_clc no_llm (asc ''X'') (Some []) (Some []) None
     = Inr (asc ''A'', label (asc ''A''), 11 / 20, asc ''rule'')"
  by code_simp

text \<open>
  C2 (as amended). With no catalog number and no result of the external classifier,
  the classifier always returns (it never raises); when the title, the authors and
  the summary are all empty, the result is the default category "Z" with confidence
  0.0 and source "rule".
\<close>

theorem classify_clc_default:
  assumes "L t a s = None"
  shows "(\<exists>r. classify_clc L t a s None = Inr r)
         \<and> (t = [] \<and> a \<in> {None, Some []} \<and> s \<in> {None, Some []} \<longrightarrow>
              classify_clc L t a s None = Inr (asc ''Z'', label (asc ''Z''), 0, asc ''rule''))"
proof -
  have "from_cip None = None" by (simp add: from_cip_def truthy_def)
  with assms have "classify_clc L t a s None = classify_rule_based t a s"
    by (simp add: classify_clc_def)
  then show ?thesis
    using classify_rule_based_returns[of t a s] classify_rule_based_empty[of a s] by auto
qed

theorem classify_clc_default_witness:
  "no_llm [] (Some []) (Some []) = None
   \<and> classify_clc no_llm [] (Some []) (Some []) None = Inr (asc ''Z'', label (asc ''Z''), 0, asc ''rule'')"
proof -
  have h: "no_llm [] (Some []) (Some []) = None" by (simp add: no_llm_def)
  from classify_clc_default[of no_llm "[]" "Some []" "Some []", OF h] h show ?thesis by simp
qed

theorem classify_clc_default_counterexample:
  "classify_clc no_llm [] (Some []) (Some []) None
     = Inr (asc ''Z'', label (asc ''Z''), 0, asc ''rule'')
   \<and> (0::rat) \<noteq> 1 / 2"
  by code_simp

section \<open>The splitter\<close>

lemma dedup_loop_distinct:
  "distinct out \<Longrightarrow> set seen = set out \<Longrightarrow> distinct (dedup_loop authors out seen)"
  by (induction authors out seen rule: dedup_loop.induct) (auto simp: Let_def)

lemma dedup_authors_distinct: "distinct (dedup_authors authors)"
  by (simp add: dedup_authors_def dedup_loop_distinct)

text \<open>
  C3 (the code at the failing input). The raw author U+5F20 U+4E09 U+4E3B U+7F16, a
  two-character name followed by the two-character suffix "chief editor", comes back
  with only the last character removed: the suffix's first character U+4E3B stays.
  The same happens through the splitter on a title and that kind of author.
\<close>

theorem dedup_authors_chief_editor:
  "dedup_authors [[24352, 19977, 20027, 32534]] = [[24352, 19977, 20027]]
   \<and> split_title_author None [32418, 27004, 26790, 32, 26361, 38634, 33465, 20027, 32534]
       = ([32418, 27004, 26790], [[26361, 38634, 33465, 20027]])"
  by code_simp

text \<open>
  C8. Without an entity-extraction backend, the thirteen code points of the example
  (six of the title, a space, four of the author, a space, the suffix U+8457) split
  into the title and the one author; the rule that fires is the trailing role-suffix
  pattern, which matches the whole cleaned line with the title as group 1, the
  author and the space after it as group 2 and the suffix as group 3.
\<close>

theorem split_title_author_example:
  "split_title_author None
     [26126, 26397, 37027, 20123, 20107, 20799, 32, 24403, 24180, 26126, 26376, 32, 33879]
     = ([26126, 26397, 37027, 20123, 20107, 20799], [[24403, 24180, 26126, 26376]])
   \<and> search HINT_RE
       (clean_line [26126, 26397, 37027, 20123, 20107, 20799, 32, 24403, 24180, 26126, 26376, 32, 33879])
     = Some (0, 13, [(3, 12, 13), (2, 7, 12), (1, 0, 6)])"
  by code_simp

section \<open>Reconciliation\<close>

lemma first_index_Some:
  "first_index P xs = Some i \<Longrightarrow> i < length xs \<and> P (xs ! i)"
  by (induction xs arbitrary: i) (auto split: if_splits)


lemma first_index_update:
  "first_index P xs = Some i \<Longrightarrow> P y \<Longrightarrow> first_index P (xs[i := y]) = Some i"
  by (induction xs arbitrary: i) (auto split: if_splits)

lemma first_index_append_new:
  "first_index P xs = None \<Longrightarrow> P y \<Longrightarrow> first_index P (xs @ [y]) = Some (length xs)"
  by (induction xs) (auto split: if_splits)

lemma fold_max_ge: "(a::nat) \<le> fold max xs a \<and> (\<forall>x \<in> set xs. x \<le> fold max xs a)"
proof (induction xs arbitrary: a)
  case Nil
  then show ?case by simp
next
  case (Cons x xs)
  from Cons[of "max x a"] have "max x a \<le> fold max xs (max x a)"
    and "\<forall>y \<in> set xs. y \<le> fold max xs (max x a)" by auto
  then show ?case by auto
qed

lemma new_id_fresh: "b \<in> set bs \<Longrightarrow> book_id b < new_id bs"
  using fold_max_ge[of 0 "map book_id bs"] by (auto simp: new_id_def less_Suc_eq_le)

lemma apply_detail_keeps [simp]:
  "isbn (apply_detail d b) = isbn b"
  "cover_path (apply_detail d b) = cover_path b"
  "clc (apply_detail d b) = clc b"
  "book_id (apply_detail d b) = book_id b"
  by (simp_all add: apply_detail_def)

lemma apply_detail_fields:
  "publisher (apply_detail d b) = (if truthy (d_publisher d) then d_publisher d else publisher b)"
  "pub_year (apply_detail d b) = (if int_truthy (d_pub_year d) then d_pub_year d else pub_year b)"
  "edition (apply_detail d b) = (if truthy (d_edition d) then d_edition d else edition b)"
  "pages (apply_detail d b) = (if int_truthy (d_pages d) then d_pages d else pages b)"
  "summary (apply_detail d b) = (if strip (or_empty (d_summary d)) \<noteq> [] then Some (strip (or_empty (d_summary d))) else summary b)"
  "author_bio (apply_detail d b) = (if strip (or_empty (d_author_bio d)) \<noteq> [] then Some (strip (or_empty (d_author_bio d))) else author_bio b)"
  "language (apply_detail d b) = (if truthy (d_language d) then d_language d else language b)"
  "cip (apply_detail d b) = (if truthy (d_cip d) then d_cip d else cip b)"
  "authors_std (apply_detail d b) = (case d_authors d of Some (a # as) \<Rightarrow> Some (join (asc '','') (a # as)) | _ \<Rightarrow> authors_std b)"
  "title_std (apply_detail d b) = (if strip (or_empty (d_title d)) \<noteq> [] then strip (or_empty (d_title d)) else title_std b)"
  by (simp_all add: apply_detail_def)

lemma insert_book_Inr:
  assumes "insert_book w b st = Inr (i, st')"
  shows "i = length (books st) \<and> sources st' = sources st
         \<and> books st' = books st @ [b\<lparr>book_id := new_id (books st),
                language := (case language b of None \<Rightarrow> Some default_language | Some l \<Rightarrow> Some l)\<rparr>]"
  using assms by (auto simp: insert_book_def split: option.splits)

lemma reconcile_found:
  assumes "isbn_key d = Some key"
    and "first_index (\<lambda>b. isbn b = Some key) (books st) = Some j"
  shows "get_or_create_book_by_detail w d st
         = Inr (j, st\<lparr>books := (books st)[j := apply_detail d (books st ! j)]\<rparr>)"
  using assms by (simp add: get_or_create_book_by_detail_def)

lemma reconcile_new_isbn:
  assumes "isbn_key d = Some key"
    and "first_index (\<lambda>b. isbn b = Some key) (books st) = None"
    and "get_or_create_book_by_detail w d st = Inr (i, st')"
  shows "i = length (books st) \<and> sources st' = sources st
         \<and> (\<exists>b. books st' = books st @ [b] \<and> isbn b = Some key \<and> book_id b = new_id (books st)
                \<and> cover_path b = None)"
proof -
  let ?b = "\<lparr>book_id = 0, title_std = or_empty (d_title d), authors_std = Some (authors_joined d),
             publisher = None, pub_year = None, isbn = Some key, edition = None, pages = None,
             summary = None, author_bio = None, language = None, cover_path = None,
             cip = None, clc = None\<rparr>"
  from assms obtain i0 st1 where ins: "insert_book w ?b st = Inr (i0, st1)"
    and res: "i = i0" "st' = st1\<lparr>books := (books st1)[i0 := apply_detail d (books st1 ! i0)]\<rparr>"
    by (auto simp: get_or_create_book_by_detail_def split: sum.splits)
  from insert_book_Inr[OF ins] res show ?thesis by simp
qed

lemma reconcile_no_isbn:
  assumes "isbn_key d = None"
    and "get_or_create_book_by_detail w d st = Inr (i, st')"
  shows "i = length (books st) \<and> sources st' = sources st
         \<and> (\<exists>b. books st' = books st @ [b] \<and> isbn b = None \<and> book_id b = new_id (books st)
                \<and> cover_path b = None \<and> title_std b = or_empty (d_title d))"
proof -
  from assms obtain b where "insert_book w b st = Inr (i, st')" "isbn b = None"
    "cover_path b = None" "title_std b = or_empty (d_title d)"
    by (auto simp: get_or_create_book_by_detail_def)
  from insert_book_Inr[OF this(1)] this(2-) show ?thesis by simp
qed

lemma reconcile_returns:
  assumes "\<And>b. flush_fault w b = None"
  shows "\<exists>i st'. get_or_create_book_by_detail w d st = Inr (i, st')"
  using assms
  by (auto simp: get_or_create_book_by_detail_def insert_book_def split: option.splits)

text \<open>
  The key of reconciliation is the detail's ISBN trimmed of surrounding whitespace.
  For a detail with a non-empty key: a successful reconciliation returns a row with
  that key; if a row with the key existed, it is the first such row, updated in place,
  and the table has the rows it had; only if none existed, one row is appended. After
  it, every reconciliation of a detail with the same key succeeds, returns the same
  row and leaves the number of rows as it is.
\<close>

lemma reconcile_same_isbn_one_row:
  assumes "isbn_key d = Some key"
    and "get_or_create_book_by_detail w d st = Inr (i, st')"
  shows "i < length (books st') \<and> isbn (books st' ! i) = Some key
         \<and> (case first_index (\<lambda>b. isbn b = Some key) (books st) of
              Some j \<Rightarrow> i = j \<and> books st' = (books st)[j := apply_detail d (books st ! j)]
            | None \<Rightarrow> i = length (books st) \<and> length (books st') = Suc (length (books st))
                       \<and> take (length (books st)) (books st') = books st)
         \<and> (\<forall>d2. isbn_key d2 = Some key \<longrightarrow>
               (\<exists>st2. get_or_create_book_by_detail w d2 st' = Inr (i, st2)
                      \<and> books st2 = (books st')[i := apply_detail d2 (books st' ! i)]
                      \<and> length (books st2) = length (books st')))"
proof (cases "first_index (\<lambda>b. isbn b = Some key) (books st)")
  case None
  from reconcile_new_isbn[OF assms(1) None assms(2)] obtain b where
    i: "i = length (books st)" and bs: "books st' = books st @ [b]" and b: "isbn b = Some key"
    by blast
  from None b have idx: "first_index (\<lambda>b. isbn b = Some key) (books st') = Some i"
    by (simp add: bs i first_index_append_new)
  have "\<exists>st2. get_or_create_book_by_detail w d2 st' = Inr (i, st2)
          \<and> books st2 = (books st')[i := apply_detail d2 (books st' ! i)]
          \<and> length (books st2) = length (books st')" if "isbn_key d2 = Some key" for d2
    using reconcile_found[OF that idx, of w] by simp
  with None i bs b show ?thesis by simp
next
  case (Some j)
  from reconcile_found[OF assms(1) Some, of w] assms(2)
  have i: "i = j" and st': "st' = st\<lparr>books := (books st)[j := apply_detail d (books st ! j)]\<rparr>"
    by auto
  from first_index_Some[OF Some] have j: "j < length (books st)" "isbn (books st ! j) = Some key"
    by auto
  have idx: "first_index (\<lambda>b. isbn b = Some key) (books st') = Some i"
    using first_index_update[OF Some, of "apply_detail d (books st ! j)"] j by (simp add: st' i)
  have "\<exists>st2. get_or_create_book_by_detail w d2 st' = Inr (i, st2)
          \<and> books st2 = (books st')[i := apply_detail d2 (books st' ! i)]
          \<and> length (books st2) = length (books st')" if "isbn_key d2 = Some key" for d2
    using reconcile_found[OF that idx, of w] by simp
  with Some i st' j show ?thesis by simp
qed

text \<open>
  C4 (the code at the failing inputs). The acceptance check of the pipeline and the
  providers compare and store ISBNs with the hyphens removed and in upper case;
  reconciliation only trims whitespace, and the ISBN back-filled from the query is
  stored as it was typed. So the queries "702000220x" and "702000220X", equal under
  that normal form and answered by a provider whose page shows no ISBN, give the two
  rows 1 and 2 for one ISBN; and a detail with the ISBN "978-7-02-000220-7", which
  the acceptance check takes for "9787020002207", gets a second row beside the row
  of "9787020002207". Only the variant padded with blanks finds the row.
\<close>

theorem reconcile_case_variant_two_rows:
  "isbn_norm (asc ''702000220x'') = isbn_norm (asc ''702000220X'')
   \<and> search_and_ingest quiet_world [provider_bare] (asc ''702000220x'') empty_db
       = (Inr (Some 1), snd (search_and_ingest quiet_world [provider_bare] (asc ''702000220x'') empty_db))
   \<and> fst (search_and_ingest quiet_world [provider_bare] (asc ''702000220X'')
            (snd (search_and_ingest quiet_world [provider_bare] (asc ''702000220x'') empty_db)))
       = Inr (Some 2)
   \<and> map isbn (books (snd (search_and_ingest quiet_world [provider_bare] (asc ''702000220X'')
            (snd (search_and_ingest quiet_world [provider_bare] (asc ''702000220x'') empty_db)))))
       = [Some (asc ''702000220x''), Some (asc ''702000220X'')]
   \<and> \<not> isbn_mismatch (d_isbn detail_A) detail_hyphens
   \<and> get_or_create_book_by_detail quiet_world detail_A empty_db
       = Inr (0, snd (projr (get_or_create_book_by_detail quiet_world detail_A empty_db)))
   \<and> fst (projr (get_or_create_book_by_detail quiet_world detail_hyphens
            (snd (projr (get_or_create_book_by_detail quiet_world detail_A empty_db))))) = 1
   \<and> map isbn (books (snd (projr (get_or_create_book_by_detail quiet_world detail_hyphens
            (snd (projr (get_or_create_book_by_detail quiet_world detail_A empty_db)))))))
       = [Some (asc ''9787020002207''), Some (asc ''978-7-02-000220-7'')]
   \<and> fst (projr (get_or_create_book_by_detail quiet_world detail_padded
            (snd (projr (get_or_create_book_by_detail quiet_world detail_A empty_db))))) = 0
   \<and> map isbn (books (snd (projr (get_or_create_book_by_detail quiet_world detail_padded
            (snd (projr (get_or_create_book_by_detail quiet_world detail_A empty_db)))))))
       = [Some (asc ''9787020002207'')]"
  by code_simp

text \<open>
  C5. For a detail without an ISBN (absent, empty or blank), a successful
  reconciliation appends one row and leaves every other row as it was; the new row
  has no ISBN, the detail's title, and an id that no other row has. A second such
  reconciliation, whatever its title, appends another row with another id: two
  resolutions with the same title and no ISBN give two rows.
\<close>

theorem reconcile_without_isbn_new_row:
  assumes "isbn_key d = None"
    and "get_or_create_book_by_detail w d st = Inr (i, st')"
  shows "i = length (books st) \<and> length (books st') = Suc (length (books st))
         \<and> take (length (books st)) (books st') = books st
         \<and> isbn (books st' ! i) = None \<and> title_std (books st' ! i) = or_empty (d_title d)
         \<and> (\<forall>b \<in> set (books st). book_id b \<noteq> book_id (books st' ! i))
         \<and> (\<forall>d2 i2 st2. isbn_key d2 = None \<longrightarrow>
               get_or_create_book_by_detail w d2 st' = Inr (i2, st2) \<longrightarrow>
               i2 \<noteq> i \<and> length (books st2) = length (books st) + 2
               \<and> books st2 ! i = books st' ! i
               \<and> title_std (books st2 ! i2) = or_empty (d_title d2)
               \<and> book_id (books st2 ! i2) \<noteq> book_id (books st2 ! i))"
proof -
  from reconcile_no_isbn[OF assms] obtain b where
    i: "i = length (books st)" and bs: "books st' = books st @ [b]"
    and b: "isbn b = None" "book_id b = new_id (books st)" "title_std b = or_empty (d_title d)"
    by blast
  have fresh: "\<forall>x \<in> set (books st). book_id x \<noteq> book_id b"
    using new_id_fresh[of _ "books st"] b(2) by fastforce
  have second: "i2 \<noteq> i \<and> length (books st2) = length (books st) + 2
               \<and> books st2 ! i = books st' ! i
               \<and> title_std (books st2 ! i2) = or_empty (d_title d2)
               \<and> book_id (books st2 ! i2) \<noteq> book_id (books st2 ! i)"
    if "isbn_key d2 = None" "get_or_create_book_by_detail w d2 st' = Inr (i2, st2)" for d2 i2 st2
  proof -
    from reconcile_no_isbn[OF that] obtain b2 where
      i2: "i2 = length (books st')" and bs2: "books st2 = books st' @ [b2]"
      and b2: "book_id b2 = new_id (books st')" "title_std b2 = or_empty (d_title d2)"
      by blast
    have "book_id b < book_id b2"
      using new_id_fresh[of b "books st'"] b2(1) by (simp add: bs)
    then show ?thesis by (simp add: i i2 bs bs2 b2 nth_append)
  qed
  from i bs b fresh have first: "i = length (books st) \<and> length (books st') = Suc (length (books st))
         \<and> take (length (books st)) (books st') = books st
         \<and> isbn (books st' ! i) = None \<and> title_std (books st' ! i) = or_empty (d_title d)
         \<and> (\<forall>b \<in> set (books st). book_id b \<noteq> book_id (books st' ! i))"
    by (simp add: nth_append)
  from first second show ?thesis by blast
qed

theorem reconcile_without_isbn_new_row_witness:
  "isbn_key detail_no_isbn = None
   \<and> \<not> isl (get_or_create_book_by_detail quiet_world detail_no_isbn empty_db)
   \<and> (\<exists>st1. get_or_create_book_by_detail quiet_world detail_no_isbn empty_db = Inr (0, st1)
         \<and> length (books st1) = 1 \<and> title_std (books st1 ! 0) = asc ''Dream'')
   \<and> (case get_or_create_book_by_detail quiet_world detail_no_isbn empty_db of
        Inr (i, st1) \<Rightarrow>
          (case get_or_create_book_by_detail quiet_world detail_no_isbn st1 of
             Inr (i2, st2) \<Rightarrow> map title_std (books st2) = [asc ''Dream'', asc ''Dream'']
                              \<and> map book_id (books st2) = [1, 2]
           | Inl e \<Rightarrow> False)
      | Inl e \<Rightarrow> False)"
proof -
  let ?X = "get_or_create_book_by_detail quiet_world detail_no_isbn empty_db"
  have k: "isbn_key detail_no_isbn = None" by code_simp
  have r: "\<not> isl ?X" by code_simp
  have z: "fst (projr ?X) = 0" by code_simp
  have t: "or_empty (d_title detail_no_isbn) = asc ''Dream''" by code_simp
  have two: "(case ?X of
        Inr (i, st1) \<Rightarrow>
          (case get_or_create_book_by_detail quiet_world detail_no_isbn st1 of
             Inr (i2, st2) \<Rightarrow> map title_std (books st2) = [asc ''Dream'', asc ''Dream'']
                              \<and> map book_id (books st2) = [1, 2]
           | Inl e \<Rightarrow> False)
      | Inl e \<Rightarrow> False)" by code_simp
  from r z have e: "?X = Inr (0, snd (projr ?X))"
    by (metis prod.collapse sum.collapse(2))
  let ?s1 = "snd (projr ?X)"
  note main = reconcile_without_isbn_new_row[OF k e]
  from main t have "length (books ?s1) = 1" "title_std (books ?s1 ! 0) = asc ''Dream''"
    by (simp_all add: empty_db_def)
  with e have "\<exists>st1. ?X = Inr (0, st1) \<and> length (books st1) = 1
                 \<and> title_std (books st1 ! 0) = asc ''Dream''"
    by (intro exI[of _ ?s1]) simp
  with k r two show ?thesis by blast
qed

text \<open>
  C6. When the detail's key is found at row \<open>j\<close>, reconciliation succeeds on that
  row and changes no other row and no provenance entry. In the row, every optional
  field takes the detail's value where that value is non-empty (a non-empty string
  or list, a non-zero number; a summary or biography that is not blank, trimmed) and
  keeps its previous value otherwise; the ISBN, the id, the cover path and the
  category code are not touched.
\<close>

theorem reconcile_overwrites_only_non_empty:
  assumes "isbn_key d = Some key"
    and "first_index (\<lambda>b. isbn b = Some key) (books st) = Some j"
  shows "\<exists>st'. get_or_create_book_by_detail w d st = Inr (j, st')
           \<and> length (books st') = length (books st) \<and> sources st' = sources st
           \<and> (\<forall>k. k \<noteq> j \<longrightarrow> books st' ! k = books st ! k)
           \<and> publisher (books st' ! j) = (if truthy (d_publisher d) then d_publisher d else publisher (books st ! j))
           \<and> pub_year (books st' ! j) = (if int_truthy (d_pub_year d) then d_pub_year d else pub_year (books st ! j))
           \<and> edition (books st' ! j) = (if truthy (d_edition d) then d_edition d else edition (books st ! j))
           \<and> pages (books st' ! j) = (if int_truthy (d_pages d) then d_pages d else pages (books st ! j))
           \<and> summary (books st' ! j) = (if strip (or_empty (d_summary d)) \<noteq> [] then Some (strip (or_empty (d_summary d))) else summary (books st ! j))
           \<and> author_bio (books st' ! j) = (if strip (or_empty (d_author_bio d)) \<noteq> [] then Some (strip (or_empty (d_author_bio d))) else author_bio (books st ! j))
           \<and> language (books st' ! j) = (if truthy (d_language d) then d_language d else language (books st ! j))
           \<and> cip (books st' ! j) = (if truthy (d_cip d) then d_cip d else cip (books st ! j))
           \<and> authors_std (books st' ! j) = (case d_authors d of Some (a # as) \<Rightarrow> Some (join (asc '','') (a # as)) | _ \<Rightarrow> authors_std (books st ! j))
           \<and> title_std (books st' ! j) = (if strip (or_empty (d_title d)) \<noteq> [] then strip (or_empty (d_title d)) else title_std (books st ! j))
           \<and> isbn (books st' ! j) = isbn (books st ! j) \<and> book_id (books st' ! j) = book_id (books st ! j)
           \<and> cover_path (books st' ! j) = cover_path (books st ! j) \<and> clc (books st' ! j) = clc (books st ! j)"
proof -
  from first_index_Some[OF assms(2)] have j: "j < length (books st)" by simp
  define st' where "st' = st\<lparr>books := (books st)[j := apply_detail d (books st ! j)]\<rparr>"
  have row: "books st' ! j = apply_detail d (books st ! j)" using j by (simp add: st'_def)
  have res: "get_or_create_book_by_detail w d st = Inr (j, st')"
    unfolding st'_def by (rule reconcile_found[OF assms])
  have len: "length (books st') = length (books st)" and src: "sources st' = sources st"
    by (simp_all add: st'_def)
  have oth: "\<forall>k. k \<noteq> j \<longrightarrow> books st' ! k = books st ! k" by (simp add: st'_def)
  show ?thesis
    by (intro exI[of _ st'] conjI;
        (rule res len src oth | simp only: row apply_detail_fields apply_detail_keeps))
qed

theorem reconcile_overwrites_only_non_empty_witness:
  "isbn_key detail_B = Some (asc ''9787020002207'')
   \<and> first_index (\<lambda>b. isbn b = Some (asc ''9787020002207'')) (books db_A) = Some 0
   \<and> publisher (books db_A ! 0) = Some (asc ''A'')
   \<and> (\<exists>st'. get_or_create_book_by_detail quiet_world detail_B db_A = Inr (0, st')
           \<and> publisher (books st' ! 0) = Some (asc ''B''))
   \<and> (\<exists>st'. get_or_create_book_by_detail quiet_world detail_blank db_A = Inr (0, st')
           \<and> publisher (books st' ! 0) = Some (asc ''A''))
   \<and> (\<exists>st'. get_or_create_book_by_detail quiet_world detail_absent db_A = Inr (0, st')
           \<and> publisher (books st' ! 0) = Some (asc ''A''))"
proof -
  have k: "isbn_key detail_B = Some (asc ''9787020002207'')"
    "isbn_key detail_blank = Some (asc ''9787020002207'')"
    "isbn_key detail_absent = Some (asc ''9787020002207'')" by code_simp+
  have f: "first_index (\<lambda>b. isbn b = Some (asc ''9787020002207'')) (books db_A) = Some 0"
    by code_simp
  have p: "publisher (books db_A ! 0) = Some (asc ''A'')" by code_simp
  have v: "truthy (d_publisher detail_B)" "d_publisher detail_B = Some (asc ''B'')"
    "\<not> truthy (d_publisher detail_blank)" "\<not> truthy (d_publisher detail_absent)" by code_simp+
  from reconcile_overwrites_only_non_empty[OF k(1) f, of quiet_world]
    reconcile_overwrites_only_non_empty[OF k(2) f, of quiet_world]
    reconcile_overwrites_only_non_empty[OF k(3) f, of quiet_world] k f p v
  show ?thesis by auto
qed

section \<open>The provider loop\<close>



section \<open>One transaction per accepted detail\<close>

lemma with_begin_Inl: "with_begin w body st = (Inl e, st') \<Longrightarrow> st' = st"
  by (auto simp: with_begin_def split: sum.splits option.splits prod.splits)

lemma with_begin_Inr:
  "with_begin w body st = (Inr r, st') \<Longrightarrow> body st = Inr (r, st') \<and> commit_fault w st' = None"
  by (auto simp: with_begin_def split: sum.splits option.splits prod.splits)

lemma ingest_loop_cases:
  "ingest_loop w ii cands ps begun st = (r, st') \<Longrightarrow>
   st' = st \<or> (\<exists>p d bid. p \<in> set ps \<and> r = Inr (Some bid) \<and> ingest_body w p d st = Inr (bid, st'))"
proof (induction ps arbitrary: begun)
  case Nil
  then show ?case by simp
next
  case (Cons p ps)
  show ?case
  proof (cases "probe p ii cands")
    case (Inl e)
    with Cons.prems have "ingest_loop w ii cands ps False st = (r, st')" by simp
    from Cons.IH[OF this] show ?thesis by auto
  next
    case (Inr found)
    show ?thesis
    proof (cases found)
      case None
      with Inr Cons.prems have "ingest_loop w ii cands ps begun st = (r, st')" by simp
      from Cons.IH[OF this] show ?thesis by auto
    next
      case (Some detail)
      let ?d = "backfill ii detail"
      show ?thesis
      proof (cases "isbn_mismatch ii detail")
        case True
        with Inr Some Cons.prems have "ingest_loop w ii cands ps begun st = (r, st')" by simp
        from Cons.IH[OF this] show ?thesis by auto
      next
        case False
        show ?thesis
        proof (cases begun)
          case True
          with Inr Some False Cons.prems show ?thesis by simp
        next
          case nb: False
          obtain o1 st1 where wb: "with_begin w (ingest_body w p ?d) st = (o1, st1)"
            by (cases "with_begin w (ingest_body w p ?d) st")
          show ?thesis
          proof (cases o1)
            case (Inr bid)
            with wb Inr Some False nb Cons.prems \<open>probe p ii cands = Inr found\<close>
            have "r = Inr (Some bid)" "st' = st1" by auto
            with with_begin_Inr[OF wb[unfolded Inr]] show ?thesis by auto
          next
            case (Inl e)
            from with_begin_Inl[OF wb[unfolded Inl]] have same: "st1 = st" .
            from wb Inl same Some False nb Cons.prems \<open>probe p ii cands = Inr found\<close>
            have "st' = st \<or> (\<exists>b. ingest_loop w ii cands ps b st = (r, st'))"
              by (auto split: py_error.splits if_splits option.splits)
            with Cons.IH show ?thesis by auto
          qed
        qed
      qed
    qed
  qed
qed

lemma dropWhile_keeps: "x \<in> set s \<Longrightarrow> \<not> p x \<Longrightarrow> x \<in> set (dropWhile p s)"
  by (induction s) auto

lemma strip_keeps: "x \<in> set s \<Longrightarrow> \<not> is_space x \<Longrightarrow> strip s \<noteq> []"
proof -
  assume a: "x \<in> set s" "\<not> is_space x"
  define l where "l = dropWhile is_space (rev (dropWhile is_space s))"
  from a have "x \<in> set (rev (dropWhile is_space s))" by (simp add: dropWhile_keeps)
  with a(2) have "x \<in> set l"
    unfolding l_def using dropWhile_keeps[of x "rev (dropWhile is_space s)" is_space] by blast
  then have "l \<noteq> []" by (cases l) simp_all
  then have "rev l \<noteq> []" by simp
  then show ?thesis unfolding strip_def strip_by_def l_def .
qed

lemma letter_not_space: "letter_i c \<Longrightarrow> \<not> is_space c"
  by (auto simp: letter_i_def is_space_def is_upper_az_def is_lower_az_def)

lemma max_first_mem: "max_first rest best \<in> set (best # rest)"
proof (induction rest arbitrary: best)
  case Nil
  then show ?case by simp
next
  case (Cons kv rest)
  obtain k v where kv: "kv = (k, v)" by (cases kv)
  obtain bk bv where best: "best = (bk, bv)" by (cases best)
  from Cons[of "if bv < v then (k, v) else (bk, bv)"] show ?case
    by (auto simp: kv best split: if_splits)
qed

lemma label_codes_not_blank: "list_all (\<lambda>k. strip k \<noteq> []) (map fst CLC_LABELS)"
  by code_simp

lemma default_code_not_blank: "strip (asc ''Z'') \<noteq> []"
  by code_simp

lemma labels_not_empty: "CLC_LABELS \<noteq> []"
  by (simp add: CLC_LABELS_def)

lemma classify_rule_based_code:
  assumes "classify_rule_based t a s = Inr (code, l, c, src)"
  shows "strip code \<noteq> []"
proof -
  let ?blob = "strip (join (asc '' '') [normalize_s (Some t),
      normalize_s (Some (join (asc '','') (case a of None \<Rightarrow> [] | Some xs \<Rightarrow> xs))),
      normalize_s (Some (or_empty s))])"
  show ?thesis
  proof (cases "?blob = []")
    case True
    with assms have "code = asc ''Z''" by (simp add: classify_rule_based_def Let_def)
    then show ?thesis by (simp add: default_code_not_blank)
  next
    case False
    obtain sc where sc: "score_by_keywords ?blob = Inr sc" "map fst sc = map fst CLC_LABELS"
      using score_by_keywords_ok by blast
    from sc(2) labels_not_empty obtain kv rest where l: "sc = kv # rest" by (cases sc) auto
    from assms False sc(1) have "code = fst (pick_best sc)"
      by (auto simp: classify_rule_based_def Let_def split: prod.splits)
    moreover have "pick_best sc \<in> set sc" using max_first_mem[of rest kv] by (simp add: pick_best_def l)
    ultimately have "code \<in> set (map fst CLC_LABELS)" using sc(2) by (metis image_eqI set_map)
    with label_codes_not_blank show ?thesis by (auto simp: list_all_iff)
  qed
qed

lemma classify_clc_code:
  assumes "classify_clc no_llm t a s cn = Inr (code, l, c, src)"
  shows "code \<noteq> [] \<and> strip code \<noteq> []"
proof (cases "from_cip cn")
  case None
  with assms have "classify_rule_based t a s = Inr (code, l, c, src)"
    by (simp add: classify_clc_def no_llm_def)
  from classify_rule_based_code[OF this] show ?thesis by (auto simp: strip_def strip_by_def)
next
  case (Some code')
  from from_cip_head[OF Some] have h: "code' \<noteq> []" "letter_i (hd code')" by auto
  with Some assms have "code = code'" by (simp add: classify_clc_def)
  with h strip_keeps[of "hd code" code] letter_not_space show ?thesis by auto
qed

lemma set_cover_keeps:
  "book_id (set_cover c b) = book_id b" "isbn (set_cover c b) = isbn b"
  "truthy (cover_path b) \<Longrightarrow> set_cover c b = b"
  by (simp_all add: set_cover_def)

lemma set_clc_Inr:
  assumes "set_clc w b = Inr b'"
  shows "book_id b' = book_id b \<and> isbn b' = isbn b \<and> cover_path b' = cover_path b
         \<and> (classify_llm w = no_llm \<longrightarrow> truthy (clc b'))"
proof (cases "truthy (clc b)")
  case True
  with assms show ?thesis by (simp add: set_clc_def)
next
  case False
  with assms obtain code l c src where
    cl: "classify_clc (classify_llm w) (title_std b)
           (Some (if truthy (authors_std b) then split_on 44 (or_empty (authors_std b)) else []))
           (Some (or_empty (summary b))) (cip b) = Inr (code, l, c, src)"
    and b': "b' = (if code \<noteq> [] \<and> strip code \<noteq> [] then b\<lparr>clc := Some (strip code)\<rparr> else b)"
    by (auto simp: set_clc_def split: sum.splits)
  have "truthy (clc b')" if "classify_llm w = no_llm"
    using classify_clc_code[OF cl[unfolded that]] by (simp add: b' truthy_def)
  then show ?thesis by (auto simp: b')
qed

lemma reconcile_frame:
  assumes "get_or_create_book_by_detail w d st = Inr (i, st1)"
  shows "i < length (books st1) \<and> length (books st) \<le> length (books st1)
         \<and> sources st1 = sources st
         \<and> (\<forall>j < length (books st). cover_path (books st1 ! j) = cover_path (books st ! j)
                \<and> (j \<noteq> i \<longrightarrow> books st1 ! j = books st ! j))
         \<and> (isbn_key d \<noteq> None \<longrightarrow> isbn (books st1 ! i) = isbn_key d)"
proof (cases "isbn_key d")
  case None
  from reconcile_no_isbn[OF None assms] show ?thesis by (auto simp: None nth_append)
next
  case (Some key)
  show ?thesis
  proof (cases "first_index (\<lambda>b. isbn b = Some key) (books st)")
    case None
    from reconcile_new_isbn[OF Some None assms] show ?thesis by (auto simp: Some nth_append)
  next
    case (Some j)
    from first_index_Some[OF Some] have j: "j < length (books st)" "isbn (books st ! j) = Some key"
      by auto
    from reconcile_found[OF \<open>isbn_key d = Some key\<close> Some, of w] assms
    have "i = j" "st1 = st\<lparr>books := (books st)[j := apply_detail d (books st ! j)]\<rparr>" by auto
    with j show ?thesis by (auto simp: \<open>isbn_key d = Some key\<close> nth_list_update)
  qed
qed

lemma ingest_body_Inr:
  assumes "ingest_body w p d st = Inr (bid, st')"
  shows "\<exists>i. i < length (books st') \<and> book_id (books st' ! i) = bid
           \<and> sources st' = sources st @ [\<lparr>src_book_id = bid, site = p_site p, url = or_empty (d_url d), extracted = d\<rparr>]
           \<and> length (books st) \<le> length (books st')
           \<and> (\<forall>j < length (books st). j \<noteq> i \<longrightarrow> books st' ! j = books st ! j)
           \<and> (\<forall>j < length (books st). truthy (cover_path (books st ! j)) \<longrightarrow>
                  cover_path (books st' ! j) = cover_path (books st ! j))
           \<and> (isbn_key d \<noteq> None \<longrightarrow> isbn (books st' ! i) = isbn_key d)
           \<and> (classify_llm w = no_llm \<longrightarrow> truthy (clc (books st' ! i)))"
proof -
  from assms obtain i st1 b where
    rec: "get_or_create_book_by_detail w d st = Inr (i, st1)"
    and cl: "set_clc w (set_cover (fetch_cover w (d_cover_url d)) (books st1 ! i)) = Inr b"
    and bid: "bid = book_id b"
    and st': "st' = st1\<lparr>books := (books st1)[i := b],
                        sources := sources st1 @ [\<lparr>src_book_id = book_id b, site = p_site p,
                                                   url = or_empty (d_url d), extracted = d\<rparr>]\<rparr>"
    by (auto simp: ingest_body_def split: sum.splits)
  note fr = reconcile_frame[OF rec]
  note sc = set_clc_Inr[OF cl]
  from fr have i: "i < length (books st1)" by simp
  have row: "books st' ! i = b" using i by (simp add: st')
  have cov: "cover_path (books st' ! j) = cover_path (books st ! j)"
    if "j < length (books st)" "truthy (cover_path (books st ! j))" for j
  proof (cases "j = i")
    case True
    from fr that(1) have "cover_path (books st1 ! j) = cover_path (books st ! j)" by simp
    with that(2) True sc show ?thesis by (simp add: row set_cover_keeps(3))
  next
    case False
    with fr that(1) show ?thesis by (simp add: st')
  qed
  have oth: "books st' ! j = books st ! j" if "j < length (books st)" "j \<noteq> i" for j
    using fr that by (simp add: st')
  have key: "isbn (books st' ! i) = isbn_key d" if "isbn_key d \<noteq> None"
    using fr sc that by (simp add: row set_cover_keeps)
  from fr sc i row cov oth key bid show ?thesis
    by (intro exI[of _ i]) (simp add: st')
qed

text \<open>
  A whole resolution either leaves the store exactly as it was, or it returns the id
  of a book and the store holds the writes of one accepted detail of one provider.
\<close>

lemma resolution_writes_once:
  assumes "search_and_ingest w ps query st = (r, st')"
  shows "st' = st
         \<or> (\<exists>bid p d i. r = Inr (Some bid) \<and> p \<in> set ps
               \<and> i < length (books st') \<and> book_id (books st' ! i) = bid
               \<and> sources st' = sources st @ [\<lparr>src_book_id = bid, site = p_site p, url = or_empty (d_url d), extracted = d\<rparr>]
               \<and> (isbn_key d \<noteq> None \<longrightarrow> isbn (books st' ! i) = isbn_key d)
               \<and> (classify_llm w = no_llm \<longrightarrow> truthy (clc (books st' ! i)))
               \<and> (\<forall>j < length (books st). j \<noteq> i \<longrightarrow> books st' ! j = books st ! j))"
proof -
  obtain t au where "split_title_author (ner w) query = (t, au)"
    by (cases "split_title_author (ner w) query")
  with assms have "ingest_loop w (find_isbn query) (search_candidates t au query) ps False st = (r, st')"
    by (simp add: search_and_ingest_def)
  from ingest_loop_cases[OF this] show ?thesis
  proof
    assume "st' = st"
    then show ?thesis by simp
  next
    assume "\<exists>p d bid. p \<in> set ps \<and> r = Inr (Some bid) \<and> ingest_body w p d st = Inr (bid, st')"
    then obtain p d bid where p: "p \<in> set ps" "r = Inr (Some bid)"
      and body: "ingest_body w p d st = Inr (bid, st')" by blast
    from ingest_body_Inr[OF body] obtain i where
      "i < length (books st')" "book_id (books st' ! i) = bid"
      "sources st' = sources st @ [\<lparr>src_book_id = bid, site = p_site p, url = or_empty (d_url d), extracted = d\<rparr>]"
      "isbn_key d \<noteq> None \<longrightarrow> isbn (books st' ! i) = isbn_key d"
      "classify_llm w = no_llm \<longrightarrow> truthy (clc (books st' ! i))"
      "\<forall>j < length (books st). j \<noteq> i \<longrightarrow> books st' ! j = books st ! j" by blast
    with p show ?thesis by blast
  qed
qed


















text \<open>
  C10. Whatever the query, the providers and the outcome of a resolution, every
  row that has a non-empty cover path before it is still there after it, with the
  same cover path: a fetched cover is assigned only to a book whose cover path is
  empty.
\<close>

theorem cover_path_never_replaced:
  assumes "search_and_ingest w ps query st = (r, st')"
    and "j < length (books st)" and "truthy (cover_path (books st ! j))"
  shows "j < length (books st') \<and> cover_path (books st' ! j) = cover_path (books st ! j)"
proof -
  obtain t au where "split_title_author (ner w) query = (t, au)"
    by (cases "split_title_author (ner w) query")
  with assms(1) have "ingest_loop w (find_isbn query) (search_candidates t au query) ps False st = (r, st')"
    by (simp add: search_and_ingest_def)
  from ingest_loop_cases[OF this] show ?thesis
  proof
    assume "st' = st"
    with assms(2) show ?thesis by simp
  next
    assume "\<exists>p d bid. p \<in> set ps \<and> r = Inr (Some bid) \<and> ingest_body w p d st = Inr (bid, st')"
    then obtain p d bid where "ingest_body w p d st = Inr (bid, st')" by blast
    from ingest_body_Inr[OF this] assms(2,3) show ?thesis by auto
  qed
qed

theorem cover_path_never_replaced_witness:
  "(let out = search_and_ingest cover_world [provider_right] (asc ''9787020002207'') db_A
    in truthy (cover_path (books db_A ! 0))
       \<and> fst out = Inr (Some 1) \<and> length (sources (snd out)) = 1
       \<and> cover_path (books (snd out) ! 0) = Some (asc ''covers/old.jpg''))
   \<and> (let out = search_and_ingest cover_world [provider_right] (asc ''9787020002207'') empty_db
      in map cover_path (books (snd out)) = [Some (asc ''covers/new.jpg'')])"
proof -
  let ?X = "search_and_ingest cover_world [provider_right] (asc ''9787020002207'') db_A"
  have c: "truthy (cover_path (books db_A ! 0))" "(0::nat) < length (books db_A)"
    "cover_path (books db_A ! 0) = Some (asc ''covers/old.jpg'')" by code_simp+
  have x: "fst ?X = Inr (Some 1)" "length (sources (snd ?X)) = 1" by code_simp+
  have n: "map cover_path (books (snd (search_and_ingest cover_world [provider_right]
             (asc ''9787020002207'') empty_db))) = [Some (asc ''covers/new.jpg'')]" by code_simp
  have ex: "?X = (fst ?X, snd ?X)" by simp
  from cover_path_never_replaced[OF ex c(2) c(1)] c(3)
  have "cover_path (books (snd ?X) ! 0) = Some (asc ''covers/old.jpg'')" by simp
  with c x n show ?thesis by (simp add: Let_def)
qed

end
